theory Spec2Isabelle
  imports Complex_Main
begin

section \<open>Data model\<close>

text \<open>
  The source file \<^verbatim>\<open>verifyHyperbolicity.py\<close> has two functions,
  \<^verbatim>\<open>verify_logarithmic_gluing_equations_and_positively_oriented_tets\<close> and
  \<^verbatim>\<open>verify_hyperbolicity\<close>. Both work on objects of libraries outside the
  repository: a SnapPy manifold and elements of Sage's complex interval field.

  The interval field is a parameter of the embedding: a record of the operations the
  source applies to interval values, over an arbitrary carrier \<open>'ci\<close>.
  Each field stands for one Python expression of the source:
  \<^item> \<open>ci_imag_pos z\<close> for \<^verbatim>\<open>z.imag() > 0\<close>;
  \<^item> \<open>ci_log z\<close> for \<^verbatim>\<open>z.log()\<close>;
  \<^item> \<open>ci_add\<close>, \<open>ci_sub\<close>, \<open>ci_mul\<close>, \<open>ci_div\<close> for the binary operators;
  \<^item> \<open>ci_of_int n\<close> for the coercion of a Python integer that meets an interval in
    a binary operator;
  \<^item> \<open>ci_pi\<close> for \<^verbatim>\<open>BaseField.pi()\<close> and \<open>ci_2j\<close> for \<^verbatim>\<open>BaseField(2j)\<close>;
  \<^item> \<open>ci_abs_lt_tol x\<close> for \<^verbatim>\<open>abs(x) < 0.1\<close>.

  The field is the one the shape intervals belong to (their \<^verbatim>\<open>parent()\<close>), at the
  precision they were computed with. What its operations return is the library's affair:
  the theorems below hold for every choice of them.
\<close>

record 'ci interval_field =
  ci_imag_pos :: "'ci \<Rightarrow> bool"
  ci_log :: "'ci \<Rightarrow> 'ci"
  ci_add :: "'ci \<Rightarrow> 'ci \<Rightarrow> 'ci"
  ci_sub :: "'ci \<Rightarrow> 'ci \<Rightarrow> 'ci"
  ci_mul :: "'ci \<Rightarrow> 'ci \<Rightarrow> 'ci"
  ci_div :: "'ci \<Rightarrow> 'ci \<Rightarrow> 'ci"
  ci_of_int :: "int \<Rightarrow> 'ci"
  ci_pi :: "'ci"
  ci_2j :: "'ci"
  ci_abs_lt_tol :: "'ci \<Rightarrow> bool"

text \<open>
  The manifold, as far as the two functions read it: \<^verbatim>\<open>num_tetrahedra()\<close>,
  the flags \<^verbatim>\<open>cusp_info(i)['complete?']\<close> for \<open>i\<close> below \<^verbatim>\<open>num_cusps()\<close>
  (so \<open>num_cusps\<close> is the length of the list of flags), the rows of
  \<^verbatim>\<open>gluing_equations()\<close>, and \<^verbatim>\<open>tetrahedra_shapes('rect', bits_prec, intervals=True)\<close>,
  which gives the shape intervals at a precision or raises (\<open>None\<close>).
\<close>

record 'ci manifold =
  num_tetrahedra :: nat
  cusp_complete :: "bool list"
  gluing_equations :: "int list list"
  tetrahedra_shapes :: "nat \<Rightarrow> 'ci list option"

definition num_cusps :: "'ci manifold \<Rightarrow> nat" where
  "num_cusps m = length (cusp_complete m)"

text \<open>The only exception the source's own statements can raise: a list index out of range.\<close>

datatype py_error = IndexError

text \<open>
  Python values that occur where the source mixes integers and intervals: the sum of an
  empty list and the expected value of a complete cusp are the Python integer \<open>0\<close>.
\<close>

datatype 'ci pyval = PyInt int | Ival 'ci

text \<open>What a loop body did: raised, returned from the function, or went on.\<close>

datatype 'a flow = Raise py_error | Return bool | Continue 'a

section \<open>Arithmetic on mixed values\<close>

fun coerce :: "'ci interval_field \<Rightarrow> 'ci pyval \<Rightarrow> 'ci" where
  "coerce F (PyInt n) = ci_of_int F n"
| "coerce F (Ival x) = x"

text \<open>
  \<^verbatim>\<open>sum(xs)\<close>: starts from the integer \<open>0\<close> and adds the elements from the left;
  the first addition coerces the \<open>0\<close>.
\<close>

definition py_sum :: "'ci interval_field \<Rightarrow> 'ci list \<Rightarrow> 'ci pyval" where
  "py_sum F xs = foldl (\<lambda>acc x. Ival (ci_add F (coerce F acc) x)) (PyInt 0) xs"

text \<open>
  \<^verbatim>\<open>abs(lhs - value) < 0.1\<close>. Between two Python integers the difference is an
  integer and the comparison is with the float \<open>0.1\<close>; as soon as one side is an
  interval the other is coerced and the field's operations decide.
\<close>

fun abs_diff_lt_tol :: "'ci interval_field \<Rightarrow> 'ci pyval \<Rightarrow> 'ci pyval \<Rightarrow> bool" where
  "abs_diff_lt_tol F (PyInt a) (PyInt b) = (10 * \<bar>a - b\<bar> < 1)"
| "abs_diff_lt_tol F lhs value =
     ci_abs_lt_tol F (ci_sub F (coerce F lhs) (coerce F value))"

section \<open>Diagnostic messages\<close>

text \<open>The decimal digits of a natural number, as \<^verbatim>\<open>%d\<close> prints them.\<close>

fun string_of_nat :: "nat \<Rightarrow> string" where
  "string_of_nat n =
     (if n < 10 then [''0123456789'' ! n]
      else string_of_nat (n div 10) @ [''0123456789'' ! (n mod 10)])"

declare string_of_nat.simps [simp del]

definition shape_msg :: string where
  "shape_msg = ''Shape with non-positive imaginary part''"

definition edge_msg :: "nat \<Rightarrow> string" where
  "edge_msg edge_index = ''Edge equation '' @ string_of_nat edge_index @ '' failed''"

definition cusp_msg :: "nat \<Rightarrow> nat \<Rightarrow> string" where
  "cusp_msg j cusp_index =
     ''Equation '' @ string_of_nat j @ '' for cusp '' @ string_of_nat cusp_index @ '' failed''"

definition solver_msg :: string where
  "solver_msg = ''Could not certify solution to rectangular gluing equations''"

definition emit :: "bool \<Rightarrow> string \<Rightarrow> string list" where
  "emit verbose msg = (if verbose then [msg] else [])"

section \<open>The logarithmic verifier\<close>

text \<open>Lines 37 to 41: the loop over the shapes.\<close>

fun positive_loop :: "'ci interval_field \<Rightarrow> bool \<Rightarrow> 'ci list \<Rightarrow> string list \<times> unit flow" where
  "positive_loop F verbose [] = ([], Continue ())"
| "positive_loop F verbose (shape # rest) =
     (if \<not> ci_imag_pos F shape then (emit verbose shape_msg, Return False)
      else positive_loop F verbose rest)"

text \<open>Lines 44 to 50: the three lists of logarithms and their interleaving.\<close>

definition logZ :: "'ci interval_field \<Rightarrow> 'ci list \<Rightarrow> 'ci list" where
  "logZ F shape_intervals = map (\<lambda>z. ci_log F z) shape_intervals"

definition logZp :: "'ci interval_field \<Rightarrow> 'ci list \<Rightarrow> 'ci list" where
  "logZp F shape_intervals =
     map (\<lambda>z. ci_log F (ci_div F (ci_of_int F 1) (ci_sub F (ci_of_int F 1) z))) shape_intervals"

definition logZpp :: "'ci interval_field \<Rightarrow> 'ci list \<Rightarrow> 'ci list" where
  "logZpp F shape_intervals =
     map (\<lambda>z. ci_log F (ci_div F (ci_sub F z (ci_of_int F 1)) z)) shape_intervals"

definition logs :: "'ci interval_field \<Rightarrow> 'ci list \<Rightarrow> 'ci list" where
  "logs F shape_intervals =
     concat (map (\<lambda>(a, b, c). [a, b, c])
       (zip (logZ F shape_intervals) (zip (logZp F shape_intervals) (logZpp F shape_intervals))))"

text \<open>Lines 62 to 64: one left-hand side per equation.\<close>

definition LHS :: "'ci interval_field \<Rightarrow> 'ci list \<Rightarrow> int list \<Rightarrow> 'ci pyval" where
  "LHS F lgs equation =
     py_sum F (map (\<lambda>(l, expo). ci_mul F (ci_of_int F l) expo) (zip equation lgs))"

definition LHSs :: "'ci interval_field \<Rightarrow> 'ci manifold \<Rightarrow> 'ci list \<Rightarrow> 'ci pyval list" where
  "LHSs F m shape_intervals = map (LHS F (logs F shape_intervals)) (gluing_equations m)"

text \<open>Line 69.\<close>

definition TWO_PI_I :: "'ci interval_field \<Rightarrow> 'ci" where
  "TWO_PI_I F = ci_mul F (ci_pi F) (ci_2j F)"

text \<open>
  Lines 75 to 81: the loop over \<^verbatim>\<open>range(n_tet)\<close>, with \<^verbatim>\<open>LHS_index\<close> as the state.
  Reading \<^verbatim>\<open>LHSs[LHS_index]\<close> beyond the end of the list raises.
\<close>

fun edge_loop ::
  "'ci interval_field \<Rightarrow> bool \<Rightarrow> 'ci pyval list \<Rightarrow> nat list \<Rightarrow> nat \<Rightarrow> string list \<times> nat flow" where
  "edge_loop F verbose lhss [] LHS_index = ([], Continue LHS_index)"
| "edge_loop F verbose lhss (edge_index # rest) LHS_index =
     (if length lhss \<le> LHS_index then ([], Raise IndexError)
      else if \<not> abs_diff_lt_tol F (lhss ! LHS_index) (Ival (TWO_PI_I F))
        then (emit verbose (edge_msg edge_index), Return False)
      else edge_loop F verbose lhss rest (LHS_index + 1))"

text \<open>Lines 96 to 102: the loop over \<^verbatim>\<open>range(num_LHSs)\<close> for one cusp.\<close>

fun cusp_equation_loop ::
  "'ci interval_field \<Rightarrow> bool \<Rightarrow> 'ci pyval list \<Rightarrow> 'ci pyval \<Rightarrow> nat \<Rightarrow> nat list \<Rightarrow> nat
    \<Rightarrow> string list \<times> nat flow" where
  "cusp_equation_loop F verbose lhss value cusp_index [] LHS_index = ([], Continue LHS_index)"
| "cusp_equation_loop F verbose lhss value cusp_index (j # rest) LHS_index =
     (if length lhss \<le> LHS_index then ([], Raise IndexError)
      else if \<not> abs_diff_lt_tol F (lhss ! LHS_index) value
        then (emit verbose (cusp_msg j cusp_index), Return False)
      else cusp_equation_loop F verbose lhss value cusp_index rest (LHS_index + 1))"

text \<open>Lines 91 to 93: the number of equations of a cusp and the value they add up to.\<close>

definition cusp_contribution :: "'ci interval_field \<Rightarrow> bool \<Rightarrow> nat \<times> 'ci pyval" where
  "cusp_contribution F is_complete = (if is_complete then (2, PyInt 0) else (1, Ival (TWO_PI_I F)))"

text \<open>Lines 84 to 102: the loop over \<^verbatim>\<open>range(n_cusps)\<close>.\<close>

fun cusp_loop ::
  "'ci interval_field \<Rightarrow> bool \<Rightarrow> 'ci manifold \<Rightarrow> 'ci pyval list \<Rightarrow> nat list \<Rightarrow> nat
    \<Rightarrow> string list \<times> nat flow" where
  "cusp_loop F verbose m lhss [] LHS_index = ([], Continue LHS_index)"
| "cusp_loop F verbose m lhss (cusp_index # rest) LHS_index =
     (case cusp_contribution F (cusp_complete m ! cusp_index) of
        (num_LHSs, value) \<Rightarrow>
          (case cusp_equation_loop F verbose lhss value cusp_index [0..<num_LHSs] LHS_index of
             (out, Continue LHS_index') \<Rightarrow>
               (case cusp_loop F verbose m lhss rest LHS_index' of
                  (out', r) \<Rightarrow> (out @ out', r))
           | (out, Raise e) \<Rightarrow> (out, Raise e)
           | (out, Return b) \<Rightarrow> (out, Return b)))"

text \<open>
  The function: what it printed, and the exception it raised or the boolean it returned.
  \<^verbatim>\<open>shape_intervals[0]\<close> on line 67 raises for an empty list.
\<close>

definition verify_logarithmic_gluing_equations_and_positively_oriented_tets ::
  "'ci interval_field \<Rightarrow> 'ci manifold \<Rightarrow> 'ci list \<Rightarrow> bool \<Rightarrow> string list \<times> (py_error + bool)" where
  "verify_logarithmic_gluing_equations_and_positively_oriented_tets F m shape_intervals verbose =
     (case positive_loop F verbose shape_intervals of
        (out, Raise e) \<Rightarrow> (out, Inl e)
      | (out, Return b) \<Rightarrow> (out, Inr b)
      | (out, Continue _) \<Rightarrow>
          (let n_tet = num_tetrahedra m;
               n_cusps = num_cusps m;
               lhss = LHSs F m shape_intervals
           in case shape_intervals of
                [] \<Rightarrow> (out, Inl IndexError)
              | first_shape # _ \<Rightarrow>
                  (case edge_loop F verbose lhss [0..<n_tet] 0 of
                     (out1, Raise e) \<Rightarrow> (out @ out1, Inl e)
                   | (out1, Return b) \<Rightarrow> (out @ out1, Inr b)
                   | (out1, Continue LHS_index) \<Rightarrow>
                       (case cusp_loop F verbose m lhss [0..<n_cusps] LHS_index of
                          (out2, Raise e) \<Rightarrow> (out @ out1 @ out2, Inl e)
                        | (out2, Return b) \<Rightarrow> (out @ out1 @ out2, Inr b)
                        | (out2, Continue _) \<Rightarrow> (out @ out1 @ out2, Inr True)))))"

section \<open>The hyperbolicity verifier\<close>

text \<open>
  Lines 141 to 153. The bare \<^verbatim>\<open>except\<close> turns every exception of the shape solver
  into \<^verbatim>\<open>(False, [])\<close>; an exception of the logarithmic verifier is outside the
  \<^verbatim>\<open>try\<close> and propagates.
\<close>

definition verify_hyperbolicity ::
  "'ci interval_field \<Rightarrow> 'ci manifold \<Rightarrow> bool \<Rightarrow> nat
    \<Rightarrow> string list \<times> (py_error + bool \<times> 'ci list)" where
  "verify_hyperbolicity F m verbose bits_prec =
     (case tetrahedra_shapes m bits_prec of
        None \<Rightarrow> (emit verbose solver_msg, Inr (False, []))
      | Some shape_intervals \<Rightarrow>
          (case verify_logarithmic_gluing_equations_and_positively_oriented_tets
                  F m shape_intervals verbose of
             (out, Inl e) \<Rightarrow> (out, Inl e)
           | (out, Inr b) \<Rightarrow>
               (if \<not> b then (out, Inr (False, [])) else (out, Inr (True, shape_intervals)))))"

section \<open>The expected layout of the equation list\<close>

text \<open>
  The layout the checks assume, in the words of the specification: first one edge
  equation per tetrahedron, each with target \<open>2\<pi>i\<close>; then, cusp by cusp, two equations
  with target \<open>0\<close> for a complete cusp and one equation with target \<open>2\<pi>i\<close> for a
  filled cusp.
\<close>

definition cusp_count :: "bool \<Rightarrow> nat" where
  "cusp_count is_complete = (if is_complete then 2 else 1)"

definition cusp_target :: "'ci interval_field \<Rightarrow> bool \<Rightarrow> 'ci pyval" where
  "cusp_target F is_complete = (if is_complete then PyInt 0 else Ival (TWO_PI_I F))"

definition cusp_cursor :: "'ci manifold \<Rightarrow> nat \<Rightarrow> nat" where
  "cusp_cursor m c = num_tetrahedra m + sum_list (map cusp_count (take c (cusp_complete m)))"

definition expected_count :: "'ci manifold \<Rightarrow> nat" where
  "expected_count m = num_tetrahedra m + sum_list (map cusp_count (cusp_complete m))"

definition expected_targets :: "'ci interval_field \<Rightarrow> 'ci manifold \<Rightarrow> 'ci pyval list" where
  "expected_targets F m =
     replicate (num_tetrahedra m) (Ival (TWO_PI_I F)) @
     concat (map (\<lambda>c. replicate (cusp_count c) (cusp_target F c)) (cusp_complete m))"

section \<open>The three checking loops as one scan\<close>

text \<open>
  The edge loop and the two nested cusp loops all do the same thing to the cursor: compare
  the next left-hand side with a target, stop with a message when the comparison fails,
  raise when the list is exhausted. \<open>scan\<close> is that loop over a list of targets with
  their messages; the loops of the source are shown below to be instances of it.
\<close>

fun scan ::
  "'ci interval_field \<Rightarrow> bool \<Rightarrow> 'ci pyval list \<Rightarrow> ('ci pyval \<times> string) list \<Rightarrow> nat
    \<Rightarrow> string list \<times> nat flow" where
  "scan F verbose lhss [] i = ([], Continue i)"
| "scan F verbose lhss ((value, msg) # rest) i =
     (if length lhss \<le> i then ([], Raise IndexError)
      else if \<not> abs_diff_lt_tol F (lhss ! i) value then (emit verbose msg, Return False)
      else scan F verbose lhss rest (i + 1))"

definition edge_items :: "'ci interval_field \<Rightarrow> nat list \<Rightarrow> ('ci pyval \<times> string) list" where
  "edge_items F es = map (\<lambda>e. (Ival (TWO_PI_I F), edge_msg e)) es"

definition cusp_items :: "'ci interval_field \<Rightarrow> 'ci manifold \<Rightarrow> nat \<Rightarrow> ('ci pyval \<times> string) list" where
  "cusp_items F m c =
     map (\<lambda>j. (snd (cusp_contribution F (cusp_complete m ! c)), cusp_msg j c))
       [0..<fst (cusp_contribution F (cusp_complete m ! c))]"

definition all_items :: "'ci interval_field \<Rightarrow> 'ci manifold \<Rightarrow> ('ci pyval \<times> string) list" where
  "all_items F m =
     edge_items F [0..<num_tetrahedra m] @ concat (map (cusp_items F m) [0..<num_cusps m])"

definition finish :: "string list \<times> nat flow \<Rightarrow> string list \<times> (py_error + bool)" where
  "finish r =
     (case r of
        (out, Raise e) \<Rightarrow> (out, Inl e)
      | (out, Return b) \<Rightarrow> (out, Inr b)
      | (out, Continue _) \<Rightarrow> (out, Inr True))"

section \<open>Exact arithmetic as an interval field\<close>

text \<open>
  An instance of the field for concrete evaluation: every interval is a single complex
  number and every operation is the exact one, with the principal branch of the logarithm.
  It is what the interval field tends to as the precision grows. Division by zero and the
  logarithm of zero, which the library rejects, are met only at shapes on the real axis,
  and those never get past the first loop. The theorems below hold for every field; this
  one serves to run the verifier on test data.
\<close>

definition point_log :: "complex \<Rightarrow> complex" where
  "point_log z = Complex (ln (cmod z)) (Arg z)"

definition point_field :: "complex interval_field" where
  "point_field =
     \<lparr> ci_imag_pos = (\<lambda>z. 0 < Im z),
       ci_log = point_log,
       ci_add = (\<lambda>x y. x + y),
       ci_sub = (\<lambda>x y. x - y),
       ci_mul = (\<lambda>x y. x * y),
       ci_div = (\<lambda>x y. x / y),
       ci_of_int = of_int,
       ci_pi = complex_of_real pi,
       ci_2j = Complex 0 2,
       ci_abs_lt_tol = (\<lambda>z. 10 * cmod z < 1) \<rparr>"

text \<open>
  Test data: one tetrahedron of shape \<open>i\<close> and one complete cusp. The logarithms of
  \<open>z\<close>, \<open>z'\<close>, \<open>z''\<close> are \<open>\<pi>i/2\<close>, \<open>-ln 2/2 + \<pi>i/4\<close> and \<open>ln 2/2 + \<pi>i/4\<close>, so the
  edge equation adds up to \<open>2\<pi>i\<close> and the two cusp equations to \<open>0\<close>.
\<close>

definition one_tet :: "complex manifold" where
  "one_tet =
     \<lparr> num_tetrahedra = 1, cusp_complete = [True],
       gluing_equations = [[2, 2, 2], [1, - 1, - 1], [- 2, 2, 2]],
       tetrahedra_shapes = (\<lambda>bits_prec. Some [\<i>]) \<rparr>"

text \<open>
  Two tetrahedra of shapes \<open>i\<close> and \<open>e\<^sup>3 i\<close>: the logarithm of the second shape is
  \<open>3 + \<pi>i/2\<close>, so the second edge equation adds up to \<open>2\<pi>i + 3\<close>.
\<close>

definition two_tet :: "complex manifold" where
  "two_tet =
     \<lparr> num_tetrahedra = 2, cusp_complete = [True],
       gluing_equations =
         [[2, 2, 2, 0, 0, 0], [3, 0, 0, 1, 0, 0], [1, - 1, - 1, 0, 0, 0], [- 2, 2, 2, 0, 0, 0]],
       tetrahedra_shapes = (\<lambda>bits_prec. Some [\<i>, Complex 0 (exp 3)]) \<rparr>"

text \<open>The first test manifold with the flag of its cusp swapped, equations unchanged.\<close>

definition filled_tet :: "complex manifold" where
  "filled_tet = one_tet \<lparr> cusp_complete := [False] \<rparr>"

text \<open>
  Variants of the first test manifold whose equation list does not have the expected three
  entries: one equation too many, one too few with a cusp equation that fails, one too few
  with all present equations passing.
\<close>

definition surplus_tet :: "complex manifold" where
  "surplus_tet =
     one_tet \<lparr> gluing_equations := [[2, 2, 2], [1, - 1, - 1], [- 2, 2, 2], [5, 0, 0]] \<rparr>"

definition short_tet :: "complex manifold" where
  "short_tet = one_tet \<lparr> gluing_equations := [[2, 2, 2], [2, 2, 2]] \<rparr>"

definition missing_tet :: "complex manifold" where
  "missing_tet = one_tet \<lparr> gluing_equations := [[2, 2, 2], [1, - 1, - 1]] \<rparr>"

text \<open>A shape solver that fails below 100 bits of precision.\<close>

definition low_precision_tet :: "complex manifold" where
  "low_precision_tet =
     one_tet \<lparr> tetrahedra_shapes := (\<lambda>bits_prec. if bits_prec < 100 then None else Some [\<i>]) \<rparr>"

section \<open>Enclosures as sets of points\<close>

text \<open>
  Modelled from the spec: the complex interval type of the numeric library, which is not
  among the sources. Section 3 of the specification describes an interval as an enclosure
  of an unknown complex number, with operations that return an enclosure of the results
  at the points of the operands; section 4.1 says that a comparison on an enclosure is
  decided by its worst case: the imaginary part is positive when the whole enclosure lies
  above the real axis, and the magnitude is below the tolerance when its largest possible
  value is. Here an enclosure is the set of its points, an operation returns the set of
  the results, and a comparison holds when it holds at every point. Rounding is not part
  of this model.
\<close>

text \<open>Modelled from the spec: the magnitude of an enclosure, as the set of the magnitudes.\<close>

definition set_abs :: "complex set \<Rightarrow> real set" where
  "set_abs X = cmod ` X"

text \<open>
  Modelled from the spec: the comparison of a magnitude with the tolerance \<open>0.1\<close>, true
  when every possible value is below it.
\<close>

definition set_lt_tol :: "real set \<Rightarrow> bool" where
  "set_lt_tol R = (\<forall>r\<in>R. 10 * r < 1)"

text \<open>Modelled from the spec: the interval field of such enclosures.\<close>

definition set_field :: "complex set interval_field" where
  "set_field =
     \<lparr> ci_imag_pos = (\<lambda>X. \<forall>z\<in>X. 0 < Im z),
       ci_log = (\<lambda>X. point_log ` X),
       ci_add = (\<lambda>X Y. {x + y | x y. x \<in> X \<and> y \<in> Y}),
       ci_sub = (\<lambda>X Y. {x - y | x y. x \<in> X \<and> y \<in> Y}),
       ci_mul = (\<lambda>X Y. {x * y | x y. x \<in> X \<and> y \<in> Y}),
       ci_div = (\<lambda>X Y. {x / y | x y. x \<in> X \<and> y \<in> Y}),
       ci_of_int = (\<lambda>n. {of_int n}),
       ci_pi = {complex_of_real pi},
       ci_2j = {Complex 0 2},
       ci_abs_lt_tol = (\<lambda>X. set_lt_tol (set_abs X)) \<rparr>"

text \<open>The first test manifold with its shape given as the enclosure \<open>{i}\<close>.\<close>

definition one_tet_enclosed :: "complex set manifold" where
  "one_tet_enclosed =
     \<lparr> num_tetrahedra = 1, cusp_complete = [True],
       gluing_equations = [[2, 2, 2], [1, - 1, - 1], [- 2, 2, 2]],
       tetrahedra_shapes = (\<lambda>bits_prec. Some [{\<i>}]) \<rparr>"

section \<open>The loops of the source are scans\<close>

lemma edge_loop_scan: "edge_loop F v lhss es i = scan F v lhss (edge_items F es) i"
  by (induction es arbitrary: i) (simp_all add: edge_items_def)

lemma cusp_equation_loop_scan:
  "cusp_equation_loop F v lhss target c js i =
     scan F v lhss (map (\<lambda>j. (target, cusp_msg j c)) js) i"
  by (induction js arbitrary: i) simp_all

lemma scan_append:
  "scan F v lhss (xs @ ys) i =
     (case scan F v lhss xs i of
        (out, Continue i') \<Rightarrow> (case scan F v lhss ys i' of (out', r) \<Rightarrow> (out @ out', r))
      | (out, Raise e) \<Rightarrow> (out, Raise e)
      | (out, Return b) \<Rightarrow> (out, Return b))"
  by (induction F v lhss xs i rule: scan.induct) (auto split: prod.splits flow.splits)

lemma cusp_loop_scan:
  "cusp_loop F v m lhss cs i = scan F v lhss (concat (map (cusp_items F m) cs)) i"
proof (induction cs arbitrary: i)
  case Nil
  show ?case by simp
next
  case (Cons c cs)
  show ?case
    by (simp add: scan_append cusp_equation_loop_scan cusp_items_def Cons.IH
        split: prod.splits flow.splits)
qed

lemma positive_loop_eq:
  "positive_loop F v shapes =
     (if list_all (ci_imag_pos F) shapes then ([], Continue ())
      else (emit v shape_msg, Return False))"
  by (induction shapes) simp_all

lemma verify_scan:
  "verify_logarithmic_gluing_equations_and_positively_oriented_tets F m shapes v =
     (if \<not> list_all (ci_imag_pos F) shapes then (emit v shape_msg, Inr False)
      else if shapes = [] then ([], Inl IndexError)
      else finish (scan F v (LHSs F m shapes) (all_items F m) 0))"
  by (cases shapes)
    (auto simp: verify_logarithmic_gluing_equations_and_positively_oriented_tets_def
      positive_loop_eq edge_loop_scan cusp_loop_scan all_items_def scan_append finish_def
      split: prod.splits flow.splits)

section \<open>What a scan returns\<close>

lemma scan_Continue_iff:
  "scan F v lhss items i = (out, Continue i') \<longleftrightarrow>
     out = [] \<and> i' = i + length items \<and>
     (\<forall>k<length items. i + k < length lhss \<and>
        abs_diff_lt_tol F (lhss ! (i + k)) (fst (items ! k)))"
proof (induction F v lhss items i rule: scan.induct)
  case (1 F verbose lhss i)
  show ?case by auto
next
  case (2 F verbose lhss target msg rest i)
  show ?case
  proof (cases "length lhss \<le> i \<or> \<not> abs_diff_lt_tol F (lhss ! i) target")
    case True
    then show ?thesis by (auto simp: emit_def)
  next
    case False
    then have "scan F verbose lhss ((target, msg) # rest) i = scan F verbose lhss rest (i + 1)"
      by simp
    with 2 False show ?thesis
      by (auto simp: All_less_Suc2)
  qed
qed

lemma scan_first_fail:
  "k < length items \<Longrightarrow>
   (\<forall>j<k. abs_diff_lt_tol F (lhss ! (i + j)) (fst (items ! j))) \<Longrightarrow>
   i + k < length lhss \<Longrightarrow>
   \<not> abs_diff_lt_tol F (lhss ! (i + k)) (fst (items ! k)) \<Longrightarrow>
   scan F v lhss items i = (emit v (snd (items ! k)), Return False)"
proof (induction F v lhss items i arbitrary: k rule: scan.induct)
  case (1 F verbose lhss i)
  then show ?case by simp
next
  case (2 F verbose lhss target msg rest i)
  show ?case
  proof (cases k)
    case 0
    with 2 show ?thesis by simp
  next
    case (Suc k')
    with 2(2-) have ok: "abs_diff_lt_tol F (lhss ! i) target" "i < length lhss" by auto
    have "scan F verbose lhss rest (i + 1) = (emit verbose (snd (rest ! k')), Return False)"
      using 2(2-) Suc ok by (intro 2(1)) auto
    with ok Suc show ?thesis by simp
  qed
qed

lemma scan_first_missing:
  "k < length items \<Longrightarrow>
   (\<forall>j<k. abs_diff_lt_tol F (lhss ! (i + j)) (fst (items ! j))) \<Longrightarrow>
   length lhss = i + k \<Longrightarrow>
   scan F v lhss items i = ([], Raise IndexError)"
proof (induction F v lhss items i arbitrary: k rule: scan.induct)
  case (1 F verbose lhss i)
  then show ?case by simp
next
  case (2 F verbose lhss target msg rest i)
  show ?case
  proof (cases k)
    case 0
    with 2 show ?thesis by simp
  next
    case (Suc k')
    with 2(2-) have ok: "abs_diff_lt_tol F (lhss ! i) target" "i < length lhss" by auto
    have "scan F verbose lhss rest (i + 1) = ([], Raise IndexError)"
      using 2(2-) Suc ok by (intro 2(1)[of k']) auto
    with ok Suc show ?thesis by simp
  qed
qed

section \<open>The targets the scan meets\<close>

lemma cusp_contribution_eq:
  "cusp_contribution F c = (cusp_count c, cusp_target F c)"
  by (simp add: cusp_contribution_def cusp_count_def cusp_target_def)

lemma length_cusp_items [simp]:
  "length (cusp_items F m c) = cusp_count (cusp_complete m ! c)"
  by (simp add: cusp_items_def cusp_contribution_eq)

lemma map_fst_cusp_items:
  "map fst (cusp_items F m c) =
     replicate (cusp_count (cusp_complete m ! c)) (cusp_target F (cusp_complete m ! c))"
  by (simp add: cusp_items_def cusp_contribution_eq comp_def map_replicate_const)

lemma map_fst_edge_items:
  "map fst (edge_items F es) = replicate (length es) (Ival (TWO_PI_I F))"
  by (simp add: edge_items_def comp_def map_replicate_const)

lemma map_nth_upt: "map (\<lambda>c. f (xs ! c)) [0..<length xs] = map f xs"
proof -
  have "map (\<lambda>c. f (xs ! c)) [0..<length xs] = map f (map ((!) xs) [0..<length xs])"
    by (simp add: comp_def)
  then show ?thesis by (simp only: map_nth)
qed

lemma map_fst_all_items: "map fst (all_items F m) = expected_targets F m"
  using map_nth_upt [of "\<lambda>c. replicate (cusp_count c) (cusp_target F c)" "cusp_complete m"]
  by (simp add: all_items_def expected_targets_def map_fst_edge_items map_concat comp_def
      map_fst_cusp_items num_cusps_def)

lemma length_expected_targets: "length (expected_targets F m) = expected_count m"
  by (simp add: expected_targets_def expected_count_def length_concat comp_def)

lemma length_all_items: "length (all_items F m) = expected_count m"
  using arg_cong [OF map_fst_all_items, of length F m] by (simp add: length_expected_targets)

lemma fst_all_items_nth:
  "k < expected_count m \<Longrightarrow> fst (all_items F m ! k) = expected_targets F m ! k"
  using nth_map [of k "all_items F m" fst] by (simp add: map_fst_all_items length_all_items)

lemma snd_all_items_edge:
  "k < num_tetrahedra m \<Longrightarrow> snd (all_items F m ! k) = edge_msg k"
  by (simp add: all_items_def edge_items_def nth_append)

lemma concat_nth_offset:
  "c < length xss \<Longrightarrow> j < length (xss ! c) \<Longrightarrow>
   concat xss ! (sum_list (map length (take c xss)) + j) = xss ! c ! j"
proof (induction xss arbitrary: c)
  case Nil
  then show ?case by simp
next
  case (Cons xs xss)
  show ?case
  proof (cases c)
    case 0
    with Cons.prems show ?thesis by (simp add: nth_append)
  next
    case (Suc c')
    with Cons.prems have "concat xss ! (sum_list (map length (take c' xss)) + j) = xss ! c' ! j"
      by (intro Cons.IH) auto
    with Suc show ?thesis by (simp add: nth_append add.assoc)
  qed
qed

lemma cusp_cursor_items:
  "c \<le> num_cusps m \<Longrightarrow>
   cusp_cursor m c =
     num_tetrahedra m + sum_list (map length (take c (map (cusp_items F m) [0..<num_cusps m])))"
proof -
  assume c: "c \<le> num_cusps m"
  have "map length (take c (map (cusp_items F m) [0..<num_cusps m]))
      = take c (map (\<lambda>c. cusp_count (cusp_complete m ! c)) [0..<length (cusp_complete m)])"
    by (simp add: take_map comp_def num_cusps_def)
  also have "\<dots> = take c (map cusp_count (cusp_complete m))"
    by (simp only: map_nth_upt)
  finally show ?thesis by (simp add: cusp_cursor_def take_map)
qed

lemma all_items_cusp:
  assumes "c < num_cusps m" "j < cusp_count (cusp_complete m ! c)"
  shows "all_items F m ! (cusp_cursor m c + j) = (cusp_target F (cusp_complete m ! c), cusp_msg j c)"
proof -
  let ?xss = "map (cusp_items F m) [0..<num_cusps m]"
  have "concat ?xss ! (sum_list (map length (take c ?xss)) + j) = ?xss ! c ! j"
    using assms by (intro concat_nth_offset) simp_all
  moreover have "?xss ! c ! j = (cusp_target F (cusp_complete m ! c), cusp_msg j c)"
    using assms by (simp add: cusp_items_def cusp_contribution_eq)
  ultimately show ?thesis
    using assms cusp_cursor_items [of c m F]
    by (simp add: all_items_def nth_append edge_items_def add.assoc)
qed

lemma cusp_cursor_Suc:
  "c < num_cusps m \<Longrightarrow> cusp_cursor m (Suc c) = cusp_cursor m c + cusp_count (cusp_complete m ! c)"
  by (simp add: cusp_cursor_def num_cusps_def take_Suc_conv_app_nth)

lemma cusp_cursor_bound:
  "c < num_cusps m \<Longrightarrow> cusp_cursor m c + cusp_count (cusp_complete m ! c) \<le> expected_count m"
proof -
  assume c: "c < num_cusps m"
  have "sum_list (map cusp_count (cusp_complete m))
      = sum_list (map cusp_count (take (Suc c) (cusp_complete m)))
        + sum_list (map cusp_count (drop (Suc c) (cusp_complete m)))"
    by (metis append_take_drop_id map_append sum_list_append)
  with c show ?thesis
    by (simp add: cusp_cursor_def expected_count_def num_cusps_def take_Suc_conv_app_nth)
qed

lemma expected_targets_edge:
  "k < num_tetrahedra m \<Longrightarrow> expected_targets F m ! k = Ival (TWO_PI_I F)"
  by (simp add: expected_targets_def nth_append)

lemma edge_below_expected_count: "k < num_tetrahedra m \<Longrightarrow> k < expected_count m"
  by (simp add: expected_count_def)

lemma cusp_slot:
  assumes "c < num_cusps m" "j < cusp_count (cusp_complete m ! c)"
  shows "cusp_cursor m c + j < expected_count m"
    and "expected_targets F m ! (cusp_cursor m c + j) = cusp_target F (cusp_complete m ! c)"
    and "snd (all_items F m ! (cusp_cursor m c + j)) = cusp_msg j c"
proof -
  show less: "cusp_cursor m c + j < expected_count m"
    using assms cusp_cursor_bound [of c m] by simp
  show "expected_targets F m ! (cusp_cursor m c + j) = cusp_target F (cusp_complete m ! c)"
    using fst_all_items_nth [OF less, of F] all_items_cusp [OF assms, of F] by simp
  show "snd (all_items F m ! (cusp_cursor m c + j)) = cusp_msg j c"
    using all_items_cusp [OF assms, of F] by simp
qed

lemma cusp_cursor_end: "cusp_cursor m (num_cusps m) = expected_count m"
  by (simp add: cusp_cursor_def expected_count_def num_cusps_def)

section \<open>The verifier in terms of the expected layout\<close>

lemma scan_Return_False: "scan F v lhss items i = (out, Return b) \<Longrightarrow> \<not> b"
  by (induction F v lhss items i rule: scan.induct) (auto split: if_splits)

lemma scan_passes_iff:
  "(\<exists>i'. snd (scan F v lhss items i) = Continue i') \<longleftrightarrow>
     (\<forall>k<length items. i + k < length lhss \<and>
        abs_diff_lt_tol F (lhss ! (i + k)) (fst (items ! k)))"
proof
  assume "\<exists>i'. snd (scan F v lhss items i) = Continue i'"
  then obtain out i' where "scan F v lhss items i = (out, Continue i')"
    by (cases "scan F v lhss items i") auto
  then show "\<forall>k<length items. i + k < length lhss \<and>
        abs_diff_lt_tol F (lhss ! (i + k)) (fst (items ! k))"
    by (simp add: scan_Continue_iff)
next
  assume "\<forall>k<length items. i + k < length lhss \<and>
        abs_diff_lt_tol F (lhss ! (i + k)) (fst (items ! k))"
  then have "scan F v lhss items i = ([], Continue (i + length items))"
    by (simp add: scan_Continue_iff)
  then show "\<exists>i'. snd (scan F v lhss items i) = Continue i'" by simp
qed

lemma verify_True_iff:
  "snd (verify_logarithmic_gluing_equations_and_positively_oriented_tets F m shapes v) = Inr True
   \<longleftrightarrow> list_all (ci_imag_pos F) shapes \<and> shapes \<noteq> [] \<and>
     (\<forall>k<expected_count m. k < length (gluing_equations m) \<and>
        abs_diff_lt_tol F (LHSs F m shapes ! k) (expected_targets F m ! k))"
proof (cases "list_all (ci_imag_pos F) shapes \<and> shapes \<noteq> []")
  case False
  then show ?thesis by (auto simp: verify_scan)
next
  case True
  obtain out r where r: "scan F v (LHSs F m shapes) (all_items F m) 0 = (out, r)"
    by (cases "scan F v (LHSs F m shapes) (all_items F m) 0")
  have "snd (finish (out, r)) = Inr True \<longleftrightarrow> (\<exists>i. r = Continue i)"
    using scan_Return_False [of F v "LHSs F m shapes" "all_items F m" 0 out]  r
    by (cases r) (auto simp: finish_def)
  also have "\<dots> \<longleftrightarrow> (\<forall>k<expected_count m. k < length (gluing_equations m) \<and>
        abs_diff_lt_tol F (LHSs F m shapes ! k) (expected_targets F m ! k))"
    using scan_passes_iff [of F v "LHSs F m shapes" "all_items F m" 0] r
    by (simp add: length_all_items fst_all_items_nth LHSs_def)
  finally show ?thesis using True r by (simp add: verify_scan)
qed

lemma verify_first_fail:
  assumes "list_all (ci_imag_pos F) shapes" "shapes \<noteq> []"
    and "k < expected_count m" "k < length (gluing_equations m)"
    and "\<forall>j<k. abs_diff_lt_tol F (LHSs F m shapes ! j) (expected_targets F m ! j)"
    and "\<not> abs_diff_lt_tol F (LHSs F m shapes ! k) (expected_targets F m ! k)"
  shows "verify_logarithmic_gluing_equations_and_positively_oriented_tets F m shapes v
     = (emit v (snd (all_items F m ! k)), Inr False)"
proof -
  have "scan F v (LHSs F m shapes) (all_items F m) 0
      = (emit v (snd (all_items F m ! k)), Return False)"
    using assms by (intro scan_first_fail) (simp_all add: length_all_items fst_all_items_nth LHSs_def)
  with assms(1,2) show ?thesis by (simp add: verify_scan finish_def)
qed

lemma verify_first_missing:
  assumes "list_all (ci_imag_pos F) shapes" "shapes \<noteq> []"
    and "length (gluing_equations m) < expected_count m"
    and "\<forall>j<length (gluing_equations m).
           abs_diff_lt_tol F (LHSs F m shapes ! j) (expected_targets F m ! j)"
  shows "verify_logarithmic_gluing_equations_and_positively_oriented_tets F m shapes v
     = ([], Inl IndexError)"
proof -
  have "scan F v (LHSs F m shapes) (all_items F m) 0 = ([], Raise IndexError)"
    using assms
    by (intro scan_first_missing [of "length (gluing_equations m)"])
      (simp_all add: length_all_items fst_all_items_nth LHSs_def)
  with assms(1,2) show ?thesis by (simp add: verify_scan finish_def)
qed

section \<open>The verbose flag\<close>

lemma scan_verbose_result: "snd (scan F v lhss items i) = snd (scan F v' lhss items i)"
  by (induction F v lhss items i rule: scan.induct) simp_all

lemma scan_quiet: "fst (scan F False lhss items i) = []"
  by (induction F False lhss items i rule: scan.induct) (simp_all add: emit_def)

lemma snd_finish_cong: "snd r = snd r' \<Longrightarrow> snd (finish r) = snd (finish r')"
  by (cases r; cases r'; cases "snd r") (auto simp: finish_def)

lemma fst_finish: "fst (finish r) = fst r"
  by (cases r; cases "snd r") (auto simp: finish_def)

lemma verify_verbose_result:
  "snd (verify_logarithmic_gluing_equations_and_positively_oriented_tets F m shapes v)
     = snd (verify_logarithmic_gluing_equations_and_positively_oriented_tets F m shapes v')"
  using snd_finish_cong [OF scan_verbose_result [of F v "LHSs F m shapes" "all_items F m" 0 v']]
  by (simp add: verify_scan)

lemma verify_quiet:
  "fst (verify_logarithmic_gluing_equations_and_positively_oriented_tets F m shapes False) = []"
  by (simp add: verify_scan fst_finish scan_quiet emit_def)

lemma verify_no_True_on_empty:
  "snd (verify_logarithmic_gluing_equations_and_positively_oriented_tets F m [] v) \<noteq> Inr True"
  by (simp add: verify_scan)

section \<open>Left-hand sides and the lengths of the lists\<close>

lemma zip_nth_upt:
  "zip xs ys = map (\<lambda>i. (xs ! i, ys ! i)) [0..<min (length xs) (length ys)]"
  by (rule nth_equalityI) simp_all

lemma LHS_index_form:
  "LHS F lgs equation =
     foldl (\<lambda>acc i. Ival (ci_add F (coerce F acc)
              (ci_mul F (ci_of_int F (equation ! i)) (lgs ! i))))
       (PyInt 0) [0..<min (length equation) (length lgs)]"
  unfolding LHS_def py_sum_def zip_nth_upt [of equation lgs]
  by (simp add: foldl_map comp_def)





lemma logs_concat:
  "logs F shapes =
     concat (map (\<lambda>z. [ci_log F z,
                        ci_log F (ci_div F (ci_of_int F 1) (ci_sub F (ci_of_int F 1) z)),
                        ci_log F (ci_div F (ci_sub F z (ci_of_int F 1)) z)]) shapes)"
  by (induction shapes) (simp_all add: logs_def logZ_def logZp_def logZpp_def)

lemma length_logs: "length (logs F shapes) = 3 * length shapes"
  by (induction shapes) (simp_all add: logs_concat)

lemma concat_triples_nth:
  "i < length xs \<Longrightarrow>
   concat (map (\<lambda>z. [a z, b z, c z]) xs) ! (3 * i) = a (xs ! i) \<and>
   concat (map (\<lambda>z. [a z, b z, c z]) xs) ! (3 * i + 1) = b (xs ! i) \<and>
   concat (map (\<lambda>z. [a z, b z, c z]) xs) ! (3 * i + 2) = c (xs ! i)"
proof (induction xs arbitrary: i)
  case Nil
  then show ?case by simp
next
  case (Cons x xs)
  show ?case
  proof (cases i)
    case 0
    then show ?thesis by simp
  next
    case (Suc i')
    with Cons.prems have "i' < length xs" by simp
    from Cons.IH [OF this] Suc show ?thesis
      by (simp add: numeral_3_eq_3)
  qed
qed


lemma cusp_items_equations [simp]:
  "cusp_items F (m \<lparr> gluing_equations := eqs \<rparr>) = cusp_items F m"
  by (rule ext) (simp add: cusp_items_def)

lemma all_items_equations [simp]:
  "all_items F (m \<lparr> gluing_equations := eqs \<rparr>) = all_items F m"
  by (simp add: all_items_def cusp_items_def num_cusps_def)

lemma expected_count_equations [simp]:
  "expected_count (m \<lparr> gluing_equations := eqs \<rparr>) = expected_count m"
  by (simp add: expected_count_def)


lemma scan_take:
  "i + length items \<le> n \<Longrightarrow> scan F v (take n lhss) items i = scan F v lhss items i"
  by (induction F v lhss items i rule: scan.induct) auto

lemma scan_Raise:
  "scan F v lhss items i = (out, Raise e) \<Longrightarrow> length lhss < i + length items"
  by (induction F v lhss items i rule: scan.induct) (auto split: if_splits)

lemma verify_surplus_equations:
  assumes "expected_count m \<le> length (gluing_equations m)"
  shows "verify_logarithmic_gluing_equations_and_positively_oriented_tets F
      (m \<lparr> gluing_equations := take (expected_count m) (gluing_equations m) \<rparr>) shapes v
   = verify_logarithmic_gluing_equations_and_positively_oriented_tets F m shapes v"
proof -
  have "LHSs F (m \<lparr> gluing_equations := take (expected_count m) (gluing_equations m) \<rparr>) shapes
      = take (expected_count m) (LHSs F m shapes)"
    by (simp add: LHSs_def take_map)
  moreover have "scan F v (take (expected_count m) (LHSs F m shapes)) (all_items F m) 0
      = scan F v (LHSs F m shapes) (all_items F m) 0"
    by (rule scan_take) (simp add: length_all_items)
  ultimately show ?thesis by (simp add: verify_scan)
qed

lemma verify_raises_only_if:
  assumes "snd (verify_logarithmic_gluing_equations_and_positively_oriented_tets F m shapes v) = Inl e"
  shows "list_all (ci_imag_pos F) shapes \<and>
     (shapes = [] \<or> length (gluing_equations m) < expected_count m)"
proof (cases "list_all (ci_imag_pos F) shapes \<and> shapes \<noteq> []")
  case False
  with assms show ?thesis by (auto simp: verify_scan split: if_splits)
next
  case True
  obtain out r where r: "scan F v (LHSs F m shapes) (all_items F m) 0 = (out, r)"
    by (cases "scan F v (LHSs F m shapes) (all_items F m) 0")
  with assms True have "r = Raise e"
    by (cases r) (simp_all add: verify_scan finish_def)
  with r scan_Raise [of F v "LHSs F m shapes" "all_items F m" 0 out e]
  have "length (gluing_equations m) < expected_count m"
    by (simp add: length_all_items LHSs_def)
  with True show ?thesis by simp
qed

section \<open>Values of the exact field on the test data\<close>

lemma point_log_polar:
  assumes "0 < r" "- pi < t" "t \<le> pi"
  shows "point_log (Complex (r * cos t) (r * sin t)) = Complex (ln r) t"
proof -
  have z: "Complex (r * cos t) (r * sin t) = rcis r t"
    by (simp add: complex_eq_iff)
  have m: "cmod (rcis r t) = r" using assms by simp
  have "sgn (rcis r t) = cis t" unfolding sgn_eq m using assms by (simp add: rcis_def)
  then have "Arg (rcis r t) = t" using assms by (intro cis_Arg_unique) auto
  with z m show ?thesis by (simp add: point_log_def)
qed

lemma point_log_ii: "point_log \<i> = Complex 0 (pi / 2)"
  by (simp add: point_log_def)

lemma point_log_half: "point_log (Complex (1/2) (1/2)) = Complex (- (ln 2 / 2)) (pi / 4)"
proof -
  have "point_log (Complex (sqrt 2 / 2 * cos (pi / 4)) (sqrt 2 / 2 * sin (pi / 4)))
      = Complex (ln (sqrt 2 / 2)) (pi / 4)"
    by (rule point_log_polar) (simp_all add: pi_gt_zero less_imp_le)
  moreover have "sqrt 2 / 2 * (sqrt 2 / 2) = (1/2 :: real)" by simp
  moreover have "ln (sqrt 2 / 2) = - (ln 2 / 2 :: real)"
    by (simp add: ln_div ln_sqrt)
  ultimately show ?thesis by (simp add: cos_45 sin_45)
qed

lemma point_log_one_plus_ii: "point_log (Complex 1 1) = Complex (ln 2 / 2) (pi / 4)"
proof -
  have "point_log (Complex (sqrt 2 * cos (pi / 4)) (sqrt 2 * sin (pi / 4)))
      = Complex (ln (sqrt 2)) (pi / 4)"
    by (rule point_log_polar) (simp_all add: pi_gt_zero less_imp_le)
  then show ?thesis by (simp add: cos_45 sin_45 ln_sqrt)
qed

lemma point_log_imaginary: "0 < y \<Longrightarrow> point_log (Complex 0 y) = Complex (ln y) (pi / 2)"
  using point_log_polar [of y "pi / 2"] by simp

lemma logs_single:
  "logs point_field [z] = [point_log z, point_log (1 / (1 - z)), point_log ((z - 1) / z)]"
  by (simp add: logs_def logZ_def logZp_def logZpp_def point_field_def)

lemma logs_ii:
  "logs point_field [\<i>] =
     [Complex 0 (pi / 2), Complex (- (ln 2 / 2)) (pi / 4), Complex (ln 2 / 2) (pi / 4)]"
proof -
  have a: "1 / (1 - \<i>) = Complex (1/2) (1/2)"
    by (simp add: complex_eq_iff Re_divide Im_divide power2_eq_square)
  have b: "(\<i> - 1) / \<i> = Complex 1 1"
    by (simp add: complex_eq_iff Re_divide Im_divide)
  show ?thesis
    by (simp only: logs_single a b point_log_ii point_log_half point_log_one_plus_ii)
qed

lemma TWO_PI_I_point: "TWO_PI_I point_field = Complex 0 (2 * pi)"
  by (simp add: TWO_PI_I_def point_field_def complex_eq_iff)

lemma LHSs_one_tet:
  "LHSs point_field one_tet [\<i>] = [Ival (Complex 0 (2 * pi)), Ival 0, Ival 0]"
  unfolding LHSs_def logs_ii
  by (simp add: one_tet_def LHS_def py_sum_def point_field_def complex_eq_iff)

lemma verify_one_tet:
  "verify_logarithmic_gluing_equations_and_positively_oriented_tets point_field one_tet [\<i>] v
     = ([], Inr True)"
  unfolding verify_logarithmic_gluing_equations_and_positively_oriented_tets_def LHSs_one_tet
    TWO_PI_I_point
  apply (simp add: one_tet_def num_cusps_def cusp_contribution_def TWO_PI_I_point upt_rec)
  apply (simp add: point_field_def)
  done

lemma logs_pair:
  "logs point_field [z, w] =
     [point_log z, point_log (1 / (1 - z)), point_log ((z - 1) / z),
      point_log w, point_log (1 / (1 - w)), point_log ((w - 1) / w)]"
  by (simp add: logs_def logZ_def logZp_def logZpp_def point_field_def)

lemma logs_two_tet:
  "\<exists>x y. logs point_field [\<i>, Complex 0 (exp 3)] =
     [Complex 0 (pi / 2), Complex (- (ln 2 / 2)) (pi / 4), Complex (ln 2 / 2) (pi / 4),
      Complex 3 (pi / 2), x, y]"
proof -
  have a: "1 / (1 - \<i>) = Complex (1/2) (1/2)"
    by (simp add: complex_eq_iff Re_divide Im_divide power2_eq_square)
  have b: "(\<i> - 1) / \<i> = Complex 1 1"
    by (simp add: complex_eq_iff Re_divide Im_divide)
  have c: "point_log (Complex 0 (exp 3)) = Complex 3 (pi / 2)"
    by (simp add: point_log_imaginary)
  show ?thesis
    by (simp only: logs_pair a b c point_log_ii point_log_half point_log_one_plus_ii) blast
qed

lemma LHSs_two_tet:
  "LHSs point_field two_tet [\<i>, Complex 0 (exp 3)] =
     [Ival (Complex 0 (2 * pi)), Ival (Complex 3 (2 * pi)), Ival 0, Ival 0]"
proof -
  obtain x y where l: "logs point_field [\<i>, Complex 0 (exp 3)] =
     [Complex 0 (pi / 2), Complex (- (ln 2 / 2)) (pi / 4), Complex (ln 2 / 2) (pi / 4),
      Complex 3 (pi / 2), x, y]"
    using logs_two_tet by blast
  show ?thesis
    unfolding LHSs_def l
    by (simp add: two_tet_def LHS_def py_sum_def point_field_def complex_eq_iff)
qed

lemma tol_same: "abs_diff_lt_tol point_field (Ival z) (Ival z)"
  by (simp add: point_field_def)

lemma tol_zero_two_pi:
  "\<not> abs_diff_lt_tol point_field (Ival 0) (Ival (Complex 0 (2 * pi)))"
  using pi_ge_two by (simp add: point_field_def cmod_def real_sqrt_mult)

lemma tol_zero: "abs_diff_lt_tol point_field (Ival 0) (PyInt 0)"
  by (simp add: point_field_def)

lemma LHSs_filled_tet:
  "LHSs point_field filled_tet [\<i>] = [Ival (Complex 0 (2 * pi)), Ival 0, Ival 0]"
  using LHSs_one_tet by (simp add: LHSs_def filled_tet_def)

lemma LHS_edge: "LHS point_field (logs point_field [\<i>]) [2, 2, 2] = Ival (Complex 0 (2 * pi))"
  unfolding logs_ii by (simp add: LHS_def py_sum_def point_field_def complex_eq_iff)

lemma LHS_meridian: "LHS point_field (logs point_field [\<i>]) [1, - 1, - 1] = Ival 0"
  unfolding logs_ii by (simp add: LHS_def py_sum_def point_field_def complex_eq_iff)

lemma LHS_longitude: "LHS point_field (logs point_field [\<i>]) [- 2, 2, 2] = Ival 0"
  unfolding logs_ii by (simp add: LHS_def py_sum_def point_field_def complex_eq_iff)

lemma LHSs_surplus_tet:
  "\<exists>x. LHSs point_field surplus_tet [\<i>] = [Ival (Complex 0 (2 * pi)), Ival 0, Ival 0, x]"
  by (simp add: LHSs_def surplus_tet_def LHS_edge LHS_meridian LHS_longitude)

lemma LHSs_short_tet:
  "LHSs point_field short_tet [\<i>] = [Ival (Complex 0 (2 * pi)), Ival (Complex 0 (2 * pi))]"
  by (simp add: LHSs_def short_tet_def LHS_edge)

lemma LHSs_missing_tet:
  "LHSs point_field missing_tet [\<i>] = [Ival (Complex 0 (2 * pi)), Ival 0]"
  by (simp add: LHSs_def missing_tet_def LHS_edge LHS_meridian)

lemma verify_filled_tet:
  "verify_logarithmic_gluing_equations_and_positively_oriented_tets point_field filled_tet [\<i>] v
     = (emit v (cusp_msg 0 0), Inr False)"
  unfolding verify_logarithmic_gluing_equations_and_positively_oriented_tets_def LHSs_filled_tet
  apply (simp add: filled_tet_def one_tet_def num_cusps_def cusp_contribution_def TWO_PI_I_point
      upt_rec)
  apply (simp add: point_field_def cmod_def real_sqrt_mult)
  using pi_ge_two apply simp
  done

lemma verify_surplus_tet:
  "verify_logarithmic_gluing_equations_and_positively_oriented_tets point_field surplus_tet [\<i>] v
     = ([], Inr True)"
proof -
  obtain x where l: "LHSs point_field surplus_tet [\<i>]
      = [Ival (Complex 0 (2 * pi)), Ival 0, Ival 0, x]"
    using LHSs_surplus_tet by blast
  show ?thesis
    unfolding verify_logarithmic_gluing_equations_and_positively_oriented_tets_def l
    apply (simp add: surplus_tet_def one_tet_def num_cusps_def cusp_contribution_def
        TWO_PI_I_point upt_rec)
    apply (simp add: point_field_def)
    done
qed

lemma verify_short_tet:
  "verify_logarithmic_gluing_equations_and_positively_oriented_tets point_field short_tet [\<i>] v
     = (emit v (cusp_msg 0 0), Inr False)"
  unfolding verify_logarithmic_gluing_equations_and_positively_oriented_tets_def LHSs_short_tet
  apply (simp add: short_tet_def one_tet_def num_cusps_def cusp_contribution_def TWO_PI_I_point
      upt_rec)
  apply (simp add: point_field_def cmod_def real_sqrt_mult)
  using pi_ge_two apply simp
  done

lemma verify_missing_tet:
  "verify_logarithmic_gluing_equations_and_positively_oriented_tets point_field missing_tet [\<i>] v
     = ([], Inl IndexError)"
  unfolding verify_logarithmic_gluing_equations_and_positively_oriented_tets_def LHSs_missing_tet
  apply (simp add: missing_tet_def one_tet_def num_cusps_def cusp_contribution_def
      TWO_PI_I_point upt_rec)
  apply (simp add: point_field_def)
  done

lemma expected_count_one_tet:
  "expected_count one_tet = 3" "expected_count surplus_tet = 3" "expected_count short_tet = 3"
  "expected_count missing_tet = 3"
  by (simp_all add: expected_count_def one_tet_def surplus_tet_def short_tet_def missing_tet_def
      cusp_count_def)

section \<open>The field of enclosures\<close>

lemma set_field_singletons:
  "ci_add set_field {a} {b} = {a + b}"
  "ci_sub set_field {a} {b} = {a - b}"
  "ci_mul set_field {a} {b} = {a * b}"
  "ci_div set_field {a} {b} = {a / b}"
  "ci_log set_field {a} = {point_log a}"
  "ci_of_int set_field n = {of_int n}"
  by (auto simp: set_field_def)

lemma TWO_PI_I_set: "TWO_PI_I set_field = {Complex 0 (2 * pi)}"
proof -
  have "TWO_PI_I set_field = {complex_of_real pi * Complex 0 2}"
    by (auto simp: TWO_PI_I_def set_field_def)
  moreover have "complex_of_real pi * Complex 0 2 = Complex 0 (2 * pi)"
    by (simp add: complex_eq_iff)
  ultimately show ?thesis by simp
qed

lemma set_check_iff:
  "abs_diff_lt_tol set_field lhs target \<longleftrightarrow>
     (\<forall>x\<in>coerce set_field lhs. \<forall>t\<in>coerce set_field target. 10 * cmod (x - t) < 1)"
proof -
  have ints: "10 * \<bar>a - b\<bar> < 1 \<longleftrightarrow> 10 * cmod (of_int a - of_int b) < 1" for a b :: int
  proof -
    have "cmod (of_int a - of_int b) = \<bar>real_of_int (a - b)\<bar>"
      by (metis norm_of_int of_int_diff)
    moreover have "10 * \<bar>real_of_int (a - b)\<bar> < 1 \<longleftrightarrow> 10 * \<bar>a - b\<bar> < 1"
      by linarith
    ultimately show ?thesis by simp
  qed
  have sets: "ci_abs_lt_tol set_field (ci_sub set_field X T) \<longleftrightarrow>
      (\<forall>x\<in>X. \<forall>t\<in>T. 10 * cmod (x - t) < 1)" for X T
    by (auto simp: set_field_def set_lt_tol_def set_abs_def)
  show ?thesis
    by (cases lhs; cases target) (simp_all add: ints sets, simp_all add: set_field_def)
qed

lemma logs_enclosed:
  "logs set_field [{\<i>}] =
     [{Complex 0 (pi / 2)}, {Complex (- (ln 2 / 2)) (pi / 4)}, {Complex (ln 2 / 2) (pi / 4)}]"
proof -
  have "logs set_field [{z}] = map (\<lambda>w. {w}) (logs point_field [z])" for z
    by (simp add: logs_def logZ_def logZp_def logZpp_def set_field_singletons)
      (simp add: point_field_def)
  then show ?thesis by (simp add: logs_ii)
qed

lemma LHSs_enclosed:
  "LHSs set_field one_tet_enclosed [{\<i>}] = [Ival {Complex 0 (2 * pi)}, Ival {0}, Ival {0}]"
  unfolding LHSs_def logs_enclosed
  by (simp add: one_tet_enclosed_def LHS_def py_sum_def set_field_singletons complex_eq_iff)

lemma verify_enclosed:
  "verify_logarithmic_gluing_equations_and_positively_oriented_tets set_field one_tet_enclosed
     [{\<i>}] v = ([], Inr True)"
  unfolding verify_logarithmic_gluing_equations_and_positively_oriented_tets_def LHSs_enclosed
  apply (simp add: one_tet_enclosed_def num_cusps_def cusp_contribution_def TWO_PI_I_set upt_rec
      set_field_singletons)
  apply (simp add: set_field_def set_lt_tol_def set_abs_def)
  done

section \<open>The orientation check\<close>

text \<open>
  Claim C1. If some shape interval fails the test \<open>imag() > 0\<close>, the verifier returns
  \<open>False\<close>, having printed at most the one line about the shape. The result is the same
  for every manifold and whatever the logarithm, the arithmetic and the comparison of the
  field are: nothing of them is computed. Hence the verifier returns \<open>True\<close> only if every
  shape interval passes the test.
\<close>

theorem nonpositive_shape_returns_false:
  "((\<exists>s\<in>set shape_intervals. \<not> ci_imag_pos F s) \<longrightarrow>
      verify_logarithmic_gluing_equations_and_positively_oriented_tets F m shape_intervals verbose
        = (emit verbose shape_msg, Inr False)) \<and>
   ((\<exists>s\<in>set shape_intervals. \<not> ci_imag_pos F s) \<and> ci_imag_pos F' = ci_imag_pos F \<longrightarrow>
      verify_logarithmic_gluing_equations_and_positively_oriented_tets F' m' shape_intervals verbose
        = verify_logarithmic_gluing_equations_and_positively_oriented_tets F m shape_intervals verbose) \<and>
   (snd (verify_logarithmic_gluing_equations_and_positively_oriented_tets F m shape_intervals verbose)
        = Inr True \<longrightarrow>
      (\<forall>s\<in>set shape_intervals. ci_imag_pos F s))"
  by (auto simp: verify_scan list_all_iff)

theorem nonpositive_shape_returns_false_witness:
  "(\<exists>s\<in>set [\<i>, Complex 1 (- 1)]. \<not> ci_imag_pos point_field s) \<and>
   verify_logarithmic_gluing_equations_and_positively_oriented_tets point_field one_tet
       [\<i>, Complex 1 (- 1)] True
     = ([''Shape with non-positive imaginary part''], Inr False) \<and>
   snd (verify_logarithmic_gluing_equations_and_positively_oriented_tets point_field one_tet
       [\<i>] False) = Inr True \<and>
   ci_imag_pos point_field \<i>"
proof -
  have bad: "\<exists>s\<in>set [\<i>, Complex 1 (- 1)]. \<not> ci_imag_pos point_field s"
    by (simp add: point_field_def)
  have good: "snd (verify_logarithmic_gluing_equations_and_positively_oriented_tets
      point_field one_tet [\<i>] False) = Inr True"
    by (simp add: verify_one_tet)
  have "verify_logarithmic_gluing_equations_and_positively_oriented_tets point_field one_tet
       [\<i>, Complex 1 (- 1)] True = (emit True shape_msg, Inr False)"
    using nonpositive_shape_returns_false
      [of "[\<i>, Complex 1 (- 1)]" point_field one_tet True point_field one_tet] bad
    by blast
  moreover have "ci_imag_pos point_field \<i>"
    using nonpositive_shape_returns_false
      [of "[\<i>]" point_field one_tet False point_field one_tet] good
    by simp
  ultimately show ?thesis using bad good by (simp add: emit_def shape_msg_def)
qed

section \<open>The edge equations\<close>

text \<open>
  Claim C2. The first \<open>num_tetrahedra\<close> left-hand sides are compared, in order, with
  \<open>2\<pi>i\<close> by \<^verbatim>\<open>abs(LHS - TWO_PI_I) < 0.1\<close>. With all shapes positive and the list
  of shapes non-empty, the first edge equation \<open>k\<close> whose comparison fails makes the
  verifier return \<open>False\<close>, with the message of that edge when verbose; and the verifier
  returns \<open>True\<close> only if every edge equation exists and passes. The witness is the
  two-tetrahedron test manifold, whose second edge equation adds up to \<open>2\<pi>i + 3\<close>.
\<close>

theorem edge_equations_checked_in_order:
  "((\<forall>s\<in>set shape_intervals. ci_imag_pos F s) \<and> shape_intervals \<noteq> [] \<and>
    k < num_tetrahedra m \<and> k < length (gluing_equations m) \<and>
    (\<forall>j<k. abs_diff_lt_tol F (LHSs F m shape_intervals ! j) (Ival (TWO_PI_I F))) \<and>
    \<not> abs_diff_lt_tol F (LHSs F m shape_intervals ! k) (Ival (TWO_PI_I F)) \<longrightarrow>
      verify_logarithmic_gluing_equations_and_positively_oriented_tets F m shape_intervals verbose
        = (emit verbose (edge_msg k), Inr False)) \<and>
   (snd (verify_logarithmic_gluing_equations_and_positively_oriented_tets F m shape_intervals verbose)
        = Inr True \<longrightarrow>
      (\<forall>e<num_tetrahedra m. e < length (gluing_equations m) \<and>
         abs_diff_lt_tol F (LHSs F m shape_intervals ! e) (Ival (TWO_PI_I F))))"
proof (intro conjI impI)
  assume a: "(\<forall>s\<in>set shape_intervals. ci_imag_pos F s) \<and> shape_intervals \<noteq> [] \<and>
    k < num_tetrahedra m \<and> k < length (gluing_equations m) \<and>
    (\<forall>j<k. abs_diff_lt_tol F (LHSs F m shape_intervals ! j) (Ival (TWO_PI_I F))) \<and>
    \<not> abs_diff_lt_tol F (LHSs F m shape_intervals ! k) (Ival (TWO_PI_I F))"
  then have "verify_logarithmic_gluing_equations_and_positively_oriented_tets F m shape_intervals
      verbose = (emit verbose (snd (all_items F m ! k)), Inr False)"
    by (intro verify_first_fail)
      (simp_all add: list_all_iff expected_targets_edge edge_below_expected_count)
  with a show "verify_logarithmic_gluing_equations_and_positively_oriented_tets F m
      shape_intervals verbose = (emit verbose (edge_msg k), Inr False)"
    by (simp add: snd_all_items_edge)
next
  assume "snd (verify_logarithmic_gluing_equations_and_positively_oriented_tets F m
      shape_intervals verbose) = Inr True"
  then have "\<forall>k<expected_count m. k < length (gluing_equations m) \<and>
      abs_diff_lt_tol F (LHSs F m shape_intervals ! k) (expected_targets F m ! k)"
    by (simp add: verify_True_iff)
  then show "\<forall>e<num_tetrahedra m. e < length (gluing_equations m) \<and>
      abs_diff_lt_tol F (LHSs F m shape_intervals ! e) (Ival (TWO_PI_I F))"
    using expected_targets_edge [of _ m F] edge_below_expected_count [of _ m] by metis
qed

theorem edge_equations_checked_in_order_witness:
  "LHSs point_field two_tet [\<i>, Complex 0 (exp 3)] ! 1 = Ival (Complex 3 (2 * pi)) \<and>
   TWO_PI_I point_field = Complex 0 (2 * pi) \<and>
   verify_logarithmic_gluing_equations_and_positively_oriented_tets point_field two_tet
       [\<i>, Complex 0 (exp 3)] True
     = ([''Edge equation 1 failed''], Inr False) \<and>
   snd (verify_logarithmic_gluing_equations_and_positively_oriented_tets point_field one_tet
       [\<i>] True) = Inr True \<and>
   abs_diff_lt_tol point_field (LHSs point_field one_tet [\<i>] ! 0) (Ival (TWO_PI_I point_field))"
proof -
  have pre: "(\<forall>s\<in>set [\<i>, Complex 0 (exp 3)]. ci_imag_pos point_field s) \<and>
      [\<i>, Complex 0 (exp 3)] \<noteq> [] \<and>
      1 < num_tetrahedra two_tet \<and> 1 < length (gluing_equations two_tet) \<and>
      (\<forall>j<1. abs_diff_lt_tol point_field (LHSs point_field two_tet [\<i>, Complex 0 (exp 3)] ! j)
         (Ival (TWO_PI_I point_field))) \<and>
      \<not> abs_diff_lt_tol point_field (LHSs point_field two_tet [\<i>, Complex 0 (exp 3)] ! 1)
         (Ival (TWO_PI_I point_field))"
    by (simp add: LHSs_two_tet TWO_PI_I_point) (simp add: point_field_def two_tet_def cmod_def)
  have fails: "verify_logarithmic_gluing_equations_and_positively_oriented_tets point_field
      two_tet [\<i>, Complex 0 (exp 3)] True = (emit True (edge_msg 1), Inr False)"
    using edge_equations_checked_in_order
      [of "[\<i>, Complex 0 (exp 3)]" point_field 1 two_tet True] pre
    by blast
  have passes: "snd (verify_logarithmic_gluing_equations_and_positively_oriented_tets
      point_field one_tet [\<i>] True) = Inr True"
    by (simp add: verify_one_tet)
  have "abs_diff_lt_tol point_field (LHSs point_field one_tet [\<i>] ! 0)
      (Ival (TWO_PI_I point_field))"
    using edge_equations_checked_in_order [of "[\<i>]" point_field 0 one_tet True] passes
    by (simp add: one_tet_def)
  with fails passes show ?thesis
    by (simp add: LHSs_two_tet TWO_PI_I_point emit_def edge_msg_def string_of_nat.simps)
qed

section \<open>The cusp equations\<close>

text \<open>
  Claim C3. The verifier returns \<open>True\<close> exactly when the shapes are positive, there is a
  first shape, and every position below \<open>expected_count\<close> holds an equation whose
  left-hand side is within the tolerance of the expected target at that position. The
  targets are laid out by a cursor that starts at \<open>num_tetrahedra\<close> after the edge
  equations and advances by 2 over a complete cusp (targets \<open>0\<close>) and by 1 over a filled
  cusp (target \<open>2\<pi>i\<close>). The first equation \<open>j\<close> of a cusp \<open>c\<close> whose comparison
  fails, everything before it having passed, makes the verifier return \<open>False\<close> with the
  message of that equation and cusp. The witness swaps the flag of the cusp of a passing
  manifold and gets \<open>False\<close>.
\<close>

theorem cusp_equations_checked_with_cursor:
  "(snd (verify_logarithmic_gluing_equations_and_positively_oriented_tets F m shape_intervals verbose)
        = Inr True \<longleftrightarrow>
      (\<forall>s\<in>set shape_intervals. ci_imag_pos F s) \<and> shape_intervals \<noteq> [] \<and>
      (\<forall>k<expected_count m. k < length (gluing_equations m) \<and>
         abs_diff_lt_tol F (LHSs F m shape_intervals ! k) (expected_targets F m ! k))) \<and>
   ((\<forall>s\<in>set shape_intervals. ci_imag_pos F s) \<and> shape_intervals \<noteq> [] \<and>
    c < num_cusps m \<and> j < cusp_count (cusp_complete m ! c) \<and>
    cusp_cursor m c + j < length (gluing_equations m) \<and>
    (\<forall>k<cusp_cursor m c + j.
       abs_diff_lt_tol F (LHSs F m shape_intervals ! k) (expected_targets F m ! k)) \<and>
    \<not> abs_diff_lt_tol F (LHSs F m shape_intervals ! (cusp_cursor m c + j))
        (cusp_target F (cusp_complete m ! c)) \<longrightarrow>
      verify_logarithmic_gluing_equations_and_positively_oriented_tets F m shape_intervals verbose
        = (emit verbose (cusp_msg j c), Inr False)) \<and>
   (k < num_tetrahedra m \<longrightarrow> expected_targets F m ! k = Ival (TWO_PI_I F)) \<and>
   cusp_cursor m 0 = num_tetrahedra m \<and>
   (c < num_cusps m \<longrightarrow>
      cusp_cursor m (Suc c) = cusp_cursor m c + (if cusp_complete m ! c then 2 else 1)) \<and>
   (c < num_cusps m \<and> j < (if cusp_complete m ! c then 2 else 1) \<longrightarrow>
      cusp_cursor m c + j < expected_count m \<and>
      expected_targets F m ! (cusp_cursor m c + j)
        = (if cusp_complete m ! c then PyInt 0 else Ival (TWO_PI_I F))) \<and>
   cusp_cursor m (num_cusps m) = expected_count m"
proof (intro conjI impI)
  show "snd (verify_logarithmic_gluing_equations_and_positively_oriented_tets F m shape_intervals
      verbose) = Inr True \<longleftrightarrow>
      (\<forall>s\<in>set shape_intervals. ci_imag_pos F s) \<and> shape_intervals \<noteq> [] \<and>
      (\<forall>k<expected_count m. k < length (gluing_equations m) \<and>
         abs_diff_lt_tol F (LHSs F m shape_intervals ! k) (expected_targets F m ! k))"
    by (simp add: verify_True_iff list_all_iff)
next
  assume a: "(\<forall>s\<in>set shape_intervals. ci_imag_pos F s) \<and> shape_intervals \<noteq> [] \<and>
    c < num_cusps m \<and> j < cusp_count (cusp_complete m ! c) \<and>
    cusp_cursor m c + j < length (gluing_equations m) \<and>
    (\<forall>k<cusp_cursor m c + j.
       abs_diff_lt_tol F (LHSs F m shape_intervals ! k) (expected_targets F m ! k)) \<and>
    \<not> abs_diff_lt_tol F (LHSs F m shape_intervals ! (cusp_cursor m c + j))
        (cusp_target F (cusp_complete m ! c))"
  then have slot: "c < num_cusps m" "j < cusp_count (cusp_complete m ! c)" by simp_all
  have "verify_logarithmic_gluing_equations_and_positively_oriented_tets F m shape_intervals
      verbose = (emit verbose (snd (all_items F m ! (cusp_cursor m c + j))), Inr False)"
    using a by (intro verify_first_fail) (simp_all add: list_all_iff cusp_slot [OF slot])
  then show "verify_logarithmic_gluing_equations_and_positively_oriented_tets F m
      shape_intervals verbose = (emit verbose (cusp_msg j c), Inr False)"
    by (simp add: cusp_slot [OF slot])
next
  assume "k < num_tetrahedra m"
  then show "expected_targets F m ! k = Ival (TWO_PI_I F)" by (rule expected_targets_edge)
next
  show "cusp_cursor m 0 = num_tetrahedra m" by (simp add: cusp_cursor_def)
next
  assume "c < num_cusps m"
  then show "cusp_cursor m (Suc c) = cusp_cursor m c + (if cusp_complete m ! c then 2 else 1)"
    using cusp_cursor_Suc [of c m] by (simp add: cusp_count_def)
next
  assume a: "c < num_cusps m \<and> j < (if cusp_complete m ! c then 2 else 1)"
  then have slot: "c < num_cusps m" "j < cusp_count (cusp_complete m ! c)"
    by (simp_all add: cusp_count_def)
  show "cusp_cursor m c + j < expected_count m" by (rule cusp_slot(1) [OF slot])
  show "expected_targets F m ! (cusp_cursor m c + j)
      = (if cusp_complete m ! c then PyInt 0 else Ival (TWO_PI_I F))"
    using cusp_slot(2) [OF slot, of F] by (simp add: cusp_target_def)
next
  show "cusp_cursor m (num_cusps m) = expected_count m" by (rule cusp_cursor_end)
qed

theorem cusp_equations_checked_with_cursor_witness:
  "verify_logarithmic_gluing_equations_and_positively_oriented_tets point_field one_tet [\<i>] True
     = ([], Inr True) \<and>
   expected_targets point_field one_tet = [Ival (Complex 0 (2 * pi)), PyInt 0, PyInt 0] \<and>
   cusp_cursor filled_tet 0 = 1 \<and>
   expected_targets point_field filled_tet = [Ival (Complex 0 (2 * pi)), Ival (Complex 0 (2 * pi))] \<and>
   verify_logarithmic_gluing_equations_and_positively_oriented_tets point_field filled_tet [\<i>] True
     = ([''Equation 0 for cusp 0 failed''], Inr False)"
proof -
  have t1: "expected_targets point_field one_tet = [Ival (Complex 0 (2 * pi)), PyInt 0, PyInt 0]"
    by (simp add: expected_targets_def one_tet_def cusp_count_def cusp_target_def TWO_PI_I_point
        numeral_2_eq_2)
  have t2: "expected_targets point_field filled_tet
      = [Ival (Complex 0 (2 * pi)), Ival (Complex 0 (2 * pi))]"
    by (simp add: expected_targets_def filled_tet_def one_tet_def cusp_count_def cusp_target_def
        TWO_PI_I_point)
  have cur: "cusp_cursor filled_tet 0 = 1"
    by (simp add: cusp_cursor_def filled_tet_def one_tet_def)
  have pre: "(\<forall>s\<in>set [\<i>]. ci_imag_pos point_field s) \<and> [\<i>] \<noteq> [] \<and>
      0 < num_cusps filled_tet \<and> 0 < cusp_count (cusp_complete filled_tet ! 0) \<and>
      cusp_cursor filled_tet 0 + 0 < length (gluing_equations filled_tet) \<and>
      (\<forall>k<cusp_cursor filled_tet 0 + 0.
         abs_diff_lt_tol point_field (LHSs point_field filled_tet [\<i>] ! k)
           (expected_targets point_field filled_tet ! k)) \<and>
      \<not> abs_diff_lt_tol point_field (LHSs point_field filled_tet [\<i>] ! (cusp_cursor filled_tet 0 + 0))
          (cusp_target point_field (cusp_complete filled_tet ! 0))"
    unfolding cur t2 LHSs_filled_tet
    using tol_zero_two_pi
    by (simp add: filled_tet_def one_tet_def num_cusps_def cusp_count_def cusp_target_def
        TWO_PI_I_point)
      (simp add: point_field_def)
  have "verify_logarithmic_gluing_equations_and_positively_oriented_tets point_field filled_tet
      [\<i>] True = (emit True (cusp_msg 0 0), Inr False)"
    using cusp_equations_checked_with_cursor [of point_field filled_tet "[\<i>]" True 0 0] pre
    by blast
  with t1 t2 cur show ?thesis
    by (simp add: verify_one_tet emit_def cusp_msg_def string_of_nat.simps)
qed

section \<open>The tolerance check on an enclosure\<close>

text \<open>
  Claim C4. In the field of enclosures, the check \<^verbatim>\<open>abs(LHS - target) < 0.1\<close> holds
  exactly when every point of the left-hand side is within \<open>0.1\<close> of every point of the
  target: it is decided by the worst case, and an enclosure that contains the target
  itself fails as soon as it also contains a point too far from it. The verifier returns
  \<open>True\<close> exactly when every shape enclosure lies above the real axis, there is a first
  shape, and at every expected position, edge or cusp, the equation is present and every
  point of its left-hand side is within \<open>0.1\<close> of the target, which is the point \<open>2\<pi>i\<close>
  for an edge equation and for a filled cusp and the point \<open>0\<close> for a complete cusp.
\<close>

theorem tolerance_check_is_worst_case:
  "(abs_diff_lt_tol set_field lhs target \<longleftrightarrow>
      (\<forall>x\<in>coerce set_field lhs. \<forall>t\<in>coerce set_field target. 10 * cmod (x - t) < 1)) \<and>
   (snd (verify_logarithmic_gluing_equations_and_positively_oriented_tets set_field m
          shape_intervals verbose) = Inr True \<longleftrightarrow>
      (\<forall>X\<in>set shape_intervals. \<forall>z\<in>X. 0 < Im z) \<and> shape_intervals \<noteq> [] \<and>
      (\<forall>k<expected_count m. k < length (gluing_equations m) \<and>
         (\<forall>x\<in>coerce set_field (LHSs set_field m shape_intervals ! k).
          \<forall>t\<in>coerce set_field (expected_targets set_field m ! k). 10 * cmod (x - t) < 1))) \<and>
   (k < num_tetrahedra m \<longrightarrow>
      coerce set_field (expected_targets set_field m ! k) = {Complex 0 (2 * pi)}) \<and>
   (c < num_cusps m \<and> j < cusp_count (cusp_complete m ! c) \<longrightarrow>
      coerce set_field (expected_targets set_field m ! (cusp_cursor m c + j))
        = (if cusp_complete m ! c then {0} else {Complex 0 (2 * pi)}))"
proof (intro conjI impI)
  show "abs_diff_lt_tol set_field lhs target \<longleftrightarrow>
      (\<forall>x\<in>coerce set_field lhs. \<forall>t\<in>coerce set_field target. 10 * cmod (x - t) < 1)"
    by (rule set_check_iff)
next
  have pos: "list_all (ci_imag_pos set_field) shape_intervals
      \<longleftrightarrow> (\<forall>X\<in>set shape_intervals. \<forall>z\<in>X. 0 < Im z)"
    by (simp add: list_all_iff set_field_def)
  show "snd (verify_logarithmic_gluing_equations_and_positively_oriented_tets set_field m
          shape_intervals verbose) = Inr True \<longleftrightarrow>
      (\<forall>X\<in>set shape_intervals. \<forall>z\<in>X. 0 < Im z) \<and> shape_intervals \<noteq> [] \<and>
      (\<forall>k<expected_count m. k < length (gluing_equations m) \<and>
         (\<forall>x\<in>coerce set_field (LHSs set_field m shape_intervals ! k).
          \<forall>t\<in>coerce set_field (expected_targets set_field m ! k). 10 * cmod (x - t) < 1))"
    unfolding verify_True_iff pos set_check_iff ..
next
  assume "k < num_tetrahedra m"
  then show "coerce set_field (expected_targets set_field m ! k) = {Complex 0 (2 * pi)}"
    by (simp add: expected_targets_edge TWO_PI_I_set)
next
  assume "c < num_cusps m \<and> j < cusp_count (cusp_complete m ! c)"
  then have slot: "c < num_cusps m" "j < cusp_count (cusp_complete m ! c)" by simp_all
  show "coerce set_field (expected_targets set_field m ! (cusp_cursor m c + j))
        = (if cusp_complete m ! c then {0} else {Complex 0 (2 * pi)})"
    using cusp_slot(2) [OF slot, of set_field]
    by (simp add: cusp_target_def TWO_PI_I_set set_field_singletons)
qed

theorem tolerance_check_is_worst_case_witness:
  "abs_diff_lt_tol set_field (Ival {Complex 0 (2 * pi), Complex (1 / 20) (2 * pi)})
     (Ival {Complex 0 (2 * pi)}) \<and>
   Complex 0 (2 * pi) \<in> {Complex 0 (2 * pi), Complex 3 (2 * pi)} \<and>
   \<not> abs_diff_lt_tol set_field (Ival {Complex 0 (2 * pi), Complex 3 (2 * pi)})
     (Ival {Complex 0 (2 * pi)}) \<and>
   snd (verify_logarithmic_gluing_equations_and_positively_oriented_tets set_field
          one_tet_enclosed [{\<i>}] True) = Inr True \<and>
   coerce set_field (LHSs set_field one_tet_enclosed [{\<i>}] ! 0) = {Complex 0 (2 * pi)} \<and>
   coerce set_field (expected_targets set_field one_tet_enclosed ! 0) = {Complex 0 (2 * pi)}"
proof -
  have near: "abs_diff_lt_tol set_field (Ival {Complex 0 (2 * pi), Complex (1 / 20) (2 * pi)})
      (Ival {Complex 0 (2 * pi)})"
    using tolerance_check_is_worst_case
      [of "Ival {Complex 0 (2 * pi), Complex (1 / 20) (2 * pi)}" "Ival {Complex 0 (2 * pi)}"
        one_tet_enclosed "[{\<i>}]" True 0 0 0]
    by (simp add: cmod_def)
  have far: "\<not> abs_diff_lt_tol set_field (Ival {Complex 0 (2 * pi), Complex 3 (2 * pi)})
      (Ival {Complex 0 (2 * pi)})"
    using tolerance_check_is_worst_case
      [of "Ival {Complex 0 (2 * pi), Complex 3 (2 * pi)}" "Ival {Complex 0 (2 * pi)}"
        one_tet_enclosed "[{\<i>}]" True 0 0 0]
    by (simp add: cmod_def)
  have run: "snd (verify_logarithmic_gluing_equations_and_positively_oriented_tets set_field
          one_tet_enclosed [{\<i>}] True) = Inr True"
    by (simp add: verify_enclosed)
  have edge: "0 < num_tetrahedra one_tet_enclosed"
    by (simp add: one_tet_enclosed_def)
  have tgt: "coerce set_field (expected_targets set_field one_tet_enclosed ! 0)
      = {Complex 0 (2 * pi)}"
    using tolerance_check_is_worst_case
      [of "Ival {}" "Ival {}" one_tet_enclosed "[{\<i>}]" True 0 0 0] edge
    by blast
  from near far run tgt show ?thesis by (simp add: LHSs_enclosed)
qed

section \<open>The logarithms and the left-hand sides\<close>

text \<open>
  Claim C5. The list of logarithms holds, for the shape \<open>z\<close> of tetrahedron \<open>i\<close>, the
  field's logarithm of \<open>z\<close> at position \<open>3i\<close>, of \<open>1/(1 - z)\<close> at \<open>3i + 1\<close> and of
  \<open>(z - 1)/z\<close> at \<open>3i + 2\<close>, tetrahedron after tetrahedron. There is one left-hand side
  per equation, and for a coefficient vector of length \<open>3 \<times>\<close> the number of shapes it is
  the sum, from the left and starting at \<open>0\<close>, of the products of the coefficient at
  position \<open>i\<close>, coerced into the field, with the logarithm at position \<open>i\<close>.
\<close>

theorem logarithms_interleaved_and_dot_product:
  "logs F shape_intervals =
     concat (map (\<lambda>z. [ci_log F z,
                        ci_log F (ci_div F (ci_of_int F 1) (ci_sub F (ci_of_int F 1) z)),
                        ci_log F (ci_div F (ci_sub F z (ci_of_int F 1)) z)]) shape_intervals) \<and>
   length (logs F shape_intervals) = 3 * length shape_intervals \<and>
   (\<forall>i<length shape_intervals.
      logs F shape_intervals ! (3 * i) = ci_log F (shape_intervals ! i) \<and>
      logs F shape_intervals ! (3 * i + 1)
        = ci_log F (ci_div F (ci_of_int F 1) (ci_sub F (ci_of_int F 1) (shape_intervals ! i))) \<and>
      logs F shape_intervals ! (3 * i + 2)
        = ci_log F (ci_div F (ci_sub F (shape_intervals ! i) (ci_of_int F 1)) (shape_intervals ! i))) \<and>
   length (LHSs F m shape_intervals) = length (gluing_equations m) \<and>
   (\<forall>e<length (gluing_equations m).
      length (gluing_equations m ! e) = 3 * length shape_intervals \<longrightarrow>
      LHSs F m shape_intervals ! e =
        foldl (\<lambda>acc i. Ival (ci_add F (coerce F acc)
                 (ci_mul F (ci_of_int F (gluing_equations m ! e ! i)) (logs F shape_intervals ! i))))
          (PyInt 0) [0..<3 * length shape_intervals])"
proof (intro conjI allI impI)
  show "logs F shape_intervals =
     concat (map (\<lambda>z. [ci_log F z,
                        ci_log F (ci_div F (ci_of_int F 1) (ci_sub F (ci_of_int F 1) z)),
                        ci_log F (ci_div F (ci_sub F z (ci_of_int F 1)) z)]) shape_intervals)"
    by (rule logs_concat)
  show "length (logs F shape_intervals) = 3 * length shape_intervals"
    by (rule length_logs)
  show "length (LHSs F m shape_intervals) = length (gluing_equations m)"
    by (simp add: LHSs_def)
next
  fix i assume i: "i < length shape_intervals"
  note t = concat_triples_nth [OF i,
      of "ci_log F" "\<lambda>z. ci_log F (ci_div F (ci_of_int F 1) (ci_sub F (ci_of_int F 1) z))"
         "\<lambda>z. ci_log F (ci_div F (ci_sub F z (ci_of_int F 1)) z)"]
  show "logs F shape_intervals ! (3 * i) = ci_log F (shape_intervals ! i)"
    using t by (simp add: logs_concat)
  show "logs F shape_intervals ! (3 * i + 1)
        = ci_log F (ci_div F (ci_of_int F 1) (ci_sub F (ci_of_int F 1) (shape_intervals ! i)))"
    using t by (simp add: logs_concat)
  show "logs F shape_intervals ! (3 * i + 2)
        = ci_log F (ci_div F (ci_sub F (shape_intervals ! i) (ci_of_int F 1)) (shape_intervals ! i))"
    using t by (simp add: logs_concat)
next
  fix e
  assume e: "e < length (gluing_equations m)"
    and len: "length (gluing_equations m ! e) = 3 * length shape_intervals"
  show "LHSs F m shape_intervals ! e =
        foldl (\<lambda>acc i. Ival (ci_add F (coerce F acc)
                 (ci_mul F (ci_of_int F (gluing_equations m ! e ! i)) (logs F shape_intervals ! i))))
          (PyInt 0) [0..<3 * length shape_intervals]"
    using e len LHS_index_form [of F "logs F shape_intervals" "gluing_equations m ! e"]
    by (simp add: LHSs_def length_logs)
qed

theorem logarithms_interleaved_and_dot_product_witness:
  "logs point_field [\<i>] =
     [Complex 0 (pi / 2), Complex (- (ln 2 / 2)) (pi / 4), Complex (ln 2 / 2) (pi / 4)] \<and>
   length (gluing_equations one_tet ! 0) = 3 * length [\<i>] \<and>
   LHSs point_field one_tet [\<i>] ! 0 =
     Ival (0 + 2 * Complex 0 (pi / 2) + 2 * Complex (- (ln 2 / 2)) (pi / 4)
             + 2 * Complex (ln 2 / 2) (pi / 4)) \<and>
   LHSs point_field one_tet [\<i>] ! 0 = Ival (Complex 0 (2 * pi))"
proof -
  have e: "0 < length (gluing_equations one_tet)"
    and len: "length (gluing_equations one_tet ! 0) = 3 * length [\<i>]"
    by (simp_all add: one_tet_def)
  have "LHSs point_field one_tet [\<i>] ! 0 =
        foldl (\<lambda>acc i. Ival (ci_add point_field (coerce point_field acc)
                 (ci_mul point_field (ci_of_int point_field (gluing_equations one_tet ! 0 ! i))
                    (logs point_field [\<i>] ! i))))
          (PyInt 0) [0..<3 * length [\<i>]]"
    using logarithms_interleaved_and_dot_product [of point_field "[\<i>]" one_tet] e len by blast
  also have "\<dots> = Ival (0 + 2 * Complex 0 (pi / 2) + 2 * Complex (- (ln 2 / 2)) (pi / 4)
             + 2 * Complex (ln 2 / 2) (pi / 4))"
    unfolding logs_ii by (simp add: one_tet_def point_field_def upt_rec)
  finally show ?thesis using len by (simp add: logs_ii LHSs_one_tet)
qed

section \<open>The result of the hyperbolicity verifier\<close>

text \<open>
  Claim C6. \<open>verify_hyperbolicity\<close> returns \<open>(False, [])\<close> when the shape solver raises
  and when the logarithmic verifier returns \<open>False\<close>, and \<open>(True, shapes)\<close> with the
  solver's own list when the logarithmic verifier returns \<open>True\<close>. Whenever it returns,
  the returned list is non-empty exactly when the flag is \<open>True\<close>, and then it is the
  solver's list.
\<close>

theorem verify_hyperbolicity_result:
  "(tetrahedra_shapes m bits_prec = None \<longrightarrow>
      verify_hyperbolicity F m verbose bits_prec = (emit verbose solver_msg, Inr (False, []))) \<and>
   (tetrahedra_shapes m bits_prec = Some shape_intervals \<and>
    snd (verify_logarithmic_gluing_equations_and_positively_oriented_tets F m shape_intervals verbose)
      = Inr False \<longrightarrow>
      snd (verify_hyperbolicity F m verbose bits_prec) = Inr (False, [])) \<and>
   (tetrahedra_shapes m bits_prec = Some shape_intervals \<and>
    snd (verify_logarithmic_gluing_equations_and_positively_oriented_tets F m shape_intervals verbose)
      = Inr True \<longrightarrow>
      snd (verify_hyperbolicity F m verbose bits_prec) = Inr (True, shape_intervals)) \<and>
   (snd (verify_hyperbolicity F m verbose bits_prec) = Inr (certified, returned) \<longrightarrow>
      (returned \<noteq> [] \<longleftrightarrow> certified) \<and>
      (certified \<longrightarrow> tetrahedra_shapes m bits_prec = Some returned))"
proof (intro conjI impI)
  assume "tetrahedra_shapes m bits_prec = None"
  then show "verify_hyperbolicity F m verbose bits_prec = (emit verbose solver_msg, Inr (False, []))"
    by (simp add: verify_hyperbolicity_def)
next
  assume "tetrahedra_shapes m bits_prec = Some shape_intervals \<and>
    snd (verify_logarithmic_gluing_equations_and_positively_oriented_tets F m shape_intervals verbose)
      = Inr False"
  then show "snd (verify_hyperbolicity F m verbose bits_prec) = Inr (False, [])"
    by (auto simp: verify_hyperbolicity_def split: prod.splits sum.splits)
next
  assume "tetrahedra_shapes m bits_prec = Some shape_intervals \<and>
    snd (verify_logarithmic_gluing_equations_and_positively_oriented_tets F m shape_intervals verbose)
      = Inr True"
  then show "snd (verify_hyperbolicity F m verbose bits_prec) = Inr (True, shape_intervals)"
    by (auto simp: verify_hyperbolicity_def split: prod.splits sum.splits)
next
  assume r: "snd (verify_hyperbolicity F m verbose bits_prec) = Inr (certified, returned)"
  show "returned \<noteq> [] \<longleftrightarrow> certified"
  proof (cases "tetrahedra_shapes m bits_prec")
    case None
    with r show ?thesis by (simp add: verify_hyperbolicity_def)
  next
    case (Some shapes)
    with r verify_no_True_on_empty [of F m verbose] show ?thesis
      by (cases "shapes = []")
        (auto simp: verify_hyperbolicity_def split: prod.splits sum.splits if_splits)
  qed
  show "certified \<Longrightarrow> tetrahedra_shapes m bits_prec = Some returned"
    using r by (cases "tetrahedra_shapes m bits_prec")
      (auto simp: verify_hyperbolicity_def split: prod.splits sum.splits if_splits)
qed

theorem verify_hyperbolicity_result_witness:
  "tetrahedra_shapes low_precision_tet 53 = None \<and>
   verify_hyperbolicity point_field low_precision_tet True 53
     = ([''Could not certify solution to rectangular gluing equations''], Inr (False, [])) \<and>
   tetrahedra_shapes filled_tet 53 = Some [\<i>] \<and>
   snd (verify_hyperbolicity point_field filled_tet True 53) = Inr (False, []) \<and>
   tetrahedra_shapes one_tet 53 = Some [\<i>] \<and>
   snd (verify_hyperbolicity point_field one_tet True 53) = Inr (True, [\<i>]) \<and>
   [\<i>] \<noteq> []"
proof -
  have none: "tetrahedra_shapes low_precision_tet 53 = None"
    by (simp add: low_precision_tet_def)
  have filled: "tetrahedra_shapes filled_tet 53 = Some [\<i>] \<and>
      snd (verify_logarithmic_gluing_equations_and_positively_oriented_tets point_field
        filled_tet [\<i>] True) = Inr False"
    by (simp add: verify_filled_tet) (simp add: filled_tet_def one_tet_def)
  have one: "tetrahedra_shapes one_tet 53 = Some [\<i>] \<and>
      snd (verify_logarithmic_gluing_equations_and_positively_oriented_tets point_field
        one_tet [\<i>] True) = Inr True"
    by (simp add: verify_one_tet) (simp add: one_tet_def)
  have 1: "verify_hyperbolicity point_field low_precision_tet True 53
      = (emit True solver_msg, Inr (False, []))"
    using verify_hyperbolicity_result
      [where m = low_precision_tet and bits_prec = 53 and F = point_field and verbose = True]
      none
    by blast
  have 2: "snd (verify_hyperbolicity point_field filled_tet True 53) = Inr (False, [])"
    using verify_hyperbolicity_result
      [where m = filled_tet and bits_prec = 53 and F = point_field and verbose = True
        and shape_intervals = "[\<i>]"]
      filled
    by blast
  have 3: "snd (verify_hyperbolicity point_field one_tet True 53) = Inr (True, [\<i>])"
    using verify_hyperbolicity_result
      [where m = one_tet and bits_prec = 53 and F = point_field and verbose = True
        and shape_intervals = "[\<i>]"]
      one
    by blast
  have 4: "[\<i>] \<noteq> ([] :: complex list)"
    using verify_hyperbolicity_result
      [where m = one_tet and bits_prec = 53 and F = point_field and verbose = True
        and certified = True and returned = "[\<i>]"]
      3
    by blast
  from none filled one 1 2 3 4 show ?thesis
    by (simp add: emit_def solver_msg_def)
qed

section \<open>An equation list of the wrong length\<close>

text \<open>
  Claim C7 says that an equation list whose length differs from \<open>expected_count\<close> is
  reported as a fault of its own. The source has no such check. With one equation too many
  the verifier certifies, and \<open>verify_hyperbolicity\<close> returns \<open>(True, shapes)\<close>; with one
  equation too few and a failing cusp equation before the gap it returns the ordinary
  \<open>(False, [])\<close>.
\<close>

theorem equation_count_mismatch_not_reported:
  "length (gluing_equations surplus_tet) \<noteq> expected_count surplus_tet \<and>
   verify_logarithmic_gluing_equations_and_positively_oriented_tets point_field surplus_tet [\<i>] True
     = ([], Inr True) \<and>
   verify_hyperbolicity point_field surplus_tet True 53 = ([], Inr (True, [\<i>])) \<and>
   length (gluing_equations short_tet) \<noteq> expected_count short_tet \<and>
   verify_logarithmic_gluing_equations_and_positively_oriented_tets point_field short_tet [\<i>] True
     = ([''Equation 0 for cusp 0 failed''], Inr False) \<and>
   verify_hyperbolicity point_field short_tet True 53
     = ([''Equation 0 for cusp 0 failed''], Inr (False, []))"
proof -
  have shapes: "tetrahedra_shapes surplus_tet 53 = Some [\<i>]"
    "tetrahedra_shapes short_tet 53 = Some [\<i>]"
    by (simp_all add: surplus_tet_def short_tet_def one_tet_def)
  have lens: "length (gluing_equations surplus_tet) = 4" "length (gluing_equations short_tet) = 2"
    by (simp_all add: surplus_tet_def short_tet_def)
  have msg: "emit True (cusp_msg 0 0) = [''Equation 0 for cusp 0 failed'']"
    by (simp add: emit_def cusp_msg_def string_of_nat.simps)
  show ?thesis
    by (simp add: verify_hyperbolicity_def shapes lens expected_count_one_tet verify_surplus_tet
        verify_short_tet msg)
qed

text \<open>
  Claim C7 as amended. A list that is too short is noticed only when the cursor runs past
  its end: with positive shapes, a first shape and every equation present passing its
  check, the verifier raises \<open>IndexError\<close>. A list that is long enough is never noticed:
  the verifier does what it does on the list cut to the expected length. And the verifier
  raises only when the shapes are positive and either there is no shape or the list is too
  short.
\<close>

theorem equation_count_mismatch:
  "((\<forall>s\<in>set shape_intervals. ci_imag_pos F s) \<and> shape_intervals \<noteq> [] \<and>
    length (gluing_equations m) < expected_count m \<and>
    (\<forall>k<length (gluing_equations m).
       abs_diff_lt_tol F (LHSs F m shape_intervals ! k) (expected_targets F m ! k)) \<longrightarrow>
      verify_logarithmic_gluing_equations_and_positively_oriented_tets F m shape_intervals verbose
        = ([], Inl IndexError)) \<and>
   (expected_count m \<le> length (gluing_equations m) \<longrightarrow>
      verify_logarithmic_gluing_equations_and_positively_oriented_tets F m shape_intervals verbose
        = verify_logarithmic_gluing_equations_and_positively_oriented_tets F
            (m \<lparr> gluing_equations := take (expected_count m) (gluing_equations m) \<rparr>)
            shape_intervals verbose) \<and>
   (snd (verify_logarithmic_gluing_equations_and_positively_oriented_tets F m shape_intervals verbose)
        = Inl e \<longrightarrow>
      (\<forall>s\<in>set shape_intervals. ci_imag_pos F s) \<and>
      (shape_intervals = [] \<or> length (gluing_equations m) < expected_count m))"
proof (intro conjI impI)
  assume "(\<forall>s\<in>set shape_intervals. ci_imag_pos F s) \<and> shape_intervals \<noteq> [] \<and>
    length (gluing_equations m) < expected_count m \<and>
    (\<forall>k<length (gluing_equations m).
       abs_diff_lt_tol F (LHSs F m shape_intervals ! k) (expected_targets F m ! k))"
  then show "verify_logarithmic_gluing_equations_and_positively_oriented_tets F m shape_intervals
      verbose = ([], Inl IndexError)"
    by (intro verify_first_missing) (simp_all add: list_all_iff)
next
  assume "expected_count m \<le> length (gluing_equations m)"
  then show "verify_logarithmic_gluing_equations_and_positively_oriented_tets F m shape_intervals
      verbose = verify_logarithmic_gluing_equations_and_positively_oriented_tets F
            (m \<lparr> gluing_equations := take (expected_count m) (gluing_equations m) \<rparr>)
            shape_intervals verbose"
    by (simp add: verify_surplus_equations)
next
  assume r: "snd (verify_logarithmic_gluing_equations_and_positively_oriented_tets F m
      shape_intervals verbose) = Inl e"
  from verify_raises_only_if [OF r]
  show "\<forall>s\<in>set shape_intervals. ci_imag_pos F s"
    and "shape_intervals = [] \<or> length (gluing_equations m) < expected_count m"
    by (simp_all add: list_all_iff)
qed

theorem equation_count_mismatch_witness:
  "length (gluing_equations missing_tet) < expected_count missing_tet \<and>
   verify_logarithmic_gluing_equations_and_positively_oriented_tets point_field missing_tet [\<i>] True
     = ([], Inl IndexError) \<and>
   expected_count surplus_tet \<le> length (gluing_equations surplus_tet) \<and>
   take (expected_count surplus_tet) (gluing_equations surplus_tet) = gluing_equations one_tet \<and>
   verify_logarithmic_gluing_equations_and_positively_oriented_tets point_field surplus_tet [\<i>] True
     = verify_logarithmic_gluing_equations_and_positively_oriented_tets point_field
         (surplus_tet \<lparr> gluing_equations := gluing_equations one_tet \<rparr>) [\<i>] True"
proof -
  have short: "length (gluing_equations missing_tet) < expected_count missing_tet"
    by (simp add: expected_count_one_tet) (simp add: missing_tet_def)
  have len: "length (gluing_equations missing_tet) = 2"
    by (simp add: missing_tet_def)
  have tg: "expected_targets point_field missing_tet = [Ival (Complex 0 (2 * pi)), PyInt 0, PyInt 0]"
    by (simp add: expected_targets_def missing_tet_def one_tet_def cusp_count_def cusp_target_def
        TWO_PI_I_point numeral_2_eq_2)
  have pos: "\<forall>s\<in>set [\<i>]. ci_imag_pos point_field s"
    by (simp add: point_field_def)
  have pre: "(\<forall>s\<in>set [\<i>]. ci_imag_pos point_field s) \<and> [\<i>] \<noteq> [] \<and>
      length (gluing_equations missing_tet) < expected_count missing_tet \<and>
      (\<forall>k<length (gluing_equations missing_tet).
         abs_diff_lt_tol point_field (LHSs point_field missing_tet [\<i>] ! k)
           (expected_targets point_field missing_tet ! k))"
    unfolding LHSs_missing_tet tg len
    using pos tol_same [of "Complex 0 (2 * pi)"] tol_zero
    by (simp add: expected_count_one_tet All_less_Suc2 numeral_2_eq_2 del: abs_diff_lt_tol.simps)
  have 1: "verify_logarithmic_gluing_equations_and_positively_oriented_tets point_field
      missing_tet [\<i>] True = ([], Inl IndexError)"
    using equation_count_mismatch [of "[\<i>]" point_field missing_tet True] pre by blast
  have long: "expected_count surplus_tet \<le> length (gluing_equations surplus_tet)"
    by (simp add: expected_count_one_tet) (simp add: surplus_tet_def)
  have tk: "take (expected_count surplus_tet) (gluing_equations surplus_tet)
      = gluing_equations one_tet"
    by (simp add: expected_count_one_tet) (simp add: surplus_tet_def one_tet_def)
  have 2: "verify_logarithmic_gluing_equations_and_positively_oriented_tets point_field
      surplus_tet [\<i>] True
     = verify_logarithmic_gluing_equations_and_positively_oriented_tets point_field
         (surplus_tet \<lparr> gluing_equations := gluing_equations one_tet \<rparr>) [\<i>] True"
    using equation_count_mismatch [of "[\<i>]" point_field surplus_tet True] long
    unfolding tk by blast
  from short 1 long tk 2 show ?thesis by blast
qed

section \<open>The verbose flag does not change the result\<close>

text \<open>
  Claim C8. Both verifiers are functions of the field, the manifold, the shapes and the
  precision: the embedding has no other state. The verbose flag changes only what is
  printed: the raised exception or returned value is the same for both values of the flag,
  and nothing is printed when the flag is off.
\<close>

theorem verbose_never_alters_result:
  "snd (verify_logarithmic_gluing_equations_and_positively_oriented_tets F m shape_intervals verbose)
     = snd (verify_logarithmic_gluing_equations_and_positively_oriented_tets F m shape_intervals verbose') \<and>
   snd (verify_hyperbolicity F m verbose bits_prec) = snd (verify_hyperbolicity F m verbose' bits_prec) \<and>
   fst (verify_logarithmic_gluing_equations_and_positively_oriented_tets F m shape_intervals False) = [] \<and>
   fst (verify_hyperbolicity F m False bits_prec) = []"
proof (intro conjI)
  show "snd (verify_logarithmic_gluing_equations_and_positively_oriented_tets F m shape_intervals verbose)
     = snd (verify_logarithmic_gluing_equations_and_positively_oriented_tets F m shape_intervals verbose')"
    by (rule verify_verbose_result)
  show "snd (verify_hyperbolicity F m verbose bits_prec) = snd (verify_hyperbolicity F m verbose' bits_prec)"
  proof (cases "tetrahedra_shapes m bits_prec")
    case None
    then show ?thesis by (simp add: verify_hyperbolicity_def)
  next
    case (Some shapes)
    with verify_verbose_result [of F m shapes verbose verbose'] show ?thesis
      by (auto simp: verify_hyperbolicity_def split: prod.splits sum.splits)
  qed
  show "fst (verify_logarithmic_gluing_equations_and_positively_oriented_tets F m shape_intervals False) = []"
    by (rule verify_quiet)
  show "fst (verify_hyperbolicity F m False bits_prec) = []"
  proof (cases "tetrahedra_shapes m bits_prec")
    case None
    then show ?thesis by (simp add: verify_hyperbolicity_def emit_def)
  next
    case (Some shapes)
    with verify_quiet [of F m shapes] show ?thesis
      by (auto simp: verify_hyperbolicity_def split: prod.splits sum.splits)
  qed
qed

section \<open>The empty shape list\<close>

text \<open>
  Claim C9. On an empty list of shape intervals the verifier returns no boolean: the loop
  over the shapes has nothing to reject, and reading the first shape on line 67 raises
  \<open>IndexError\<close>, for every manifold and without any output.
\<close>

theorem empty_shape_list_raises:
  "verify_logarithmic_gluing_equations_and_positively_oriented_tets F m [] verbose
     = ([], Inl IndexError)"
  by (simp add: verify_logarithmic_gluing_equations_and_positively_oriented_tets_def)

section \<open>Coefficient vectors of the wrong length\<close>



end
